theory Spec2Isabelle
  imports
    Complex_Main
    "HOL-Library.Char_ord"
    "HOL-Library.List_Lexorder"
    "HOL-Library.Multiset"
    "HOL-Library.Option_ord"
    "HOL-Library.Product_Lexorder"
    "HOL-Library.Sublist"
begin

section \<open>Python values and the library functions the application calls\<close>

text \<open>
  The values that travel through the cache and the HTTP responses are what
  \<^verbatim>\<open>json.loads\<close> produces: \<^verbatim>\<open>None\<close>, booleans, integers, floats, strings, lists and
  dictionaries with string keys. A float in a response comes from a float column and is
  modelled by the rational number it denotes; a dictionary by its items in insertion order.
\<close>

datatype json =
    JNull
  | JBool bool
  | JInt int
  | JFloat rat
  | JStr string
  | JList "json list"
  | JDict "(string \<times> json) list"

text \<open>Python truthiness, as used by \<^verbatim>\<open>if cached_result:\<close>.\<close>

fun truthy :: "json \<Rightarrow> bool" where
  "truthy JNull = False"
| "truthy (JBool b) = b"
| "truthy (JInt n) = (n \<noteq> 0)"
| "truthy (JFloat x) = (x \<noteq> 0)"
| "truthy (JStr s) = (s \<noteq> [])"
| "truthy (JList xs) = (xs \<noteq> [])"
| "truthy (JDict kvs) = (kvs \<noteq> [])"

text \<open>\<^verbatim>\<open>d[key]\<close> on a dictionary; \<open>None\<close> stands for \<^verbatim>\<open>KeyError\<close>.\<close>

fun field :: "string \<Rightarrow> json \<Rightarrow> json option" where
  "field k (JDict kvs) = map_of kvs k"
| "field k _ = None"

text \<open>
  Functions of the Python standard library, of Redis and of the web framework that the
  repository calls but does not define. They are parameters of the model:
  \<^item> \<open>md5_hexdigest s\<close> is \<^verbatim>\<open>hashlib.md5(s.encode()).hexdigest()\<close>;
  \<^item> \<open>float_repr x\<close> is \<^verbatim>\<open>str(x)\<close> of a finite float other than zero;
  \<^item> \<open>json_dumps v\<close> is \<^verbatim>\<open>json.dumps(v, default=str)\<close>;
  \<^item> \<open>json_loads s\<close> is \<^verbatim>\<open>json.loads(s)\<close>, \<open>None\<close> when it raises;
  \<^item> \<open>isoformat t\<close> is \<^verbatim>\<open>t.isoformat()\<close> of a datetime;
  \<^item> \<open>glob_match pattern key\<close> is the pattern matching of the Redis command KEYS;
  \<^item> \<open>inherited_attr name\<close> says that the declarative base class (or \<^verbatim>\<open>object\<close>) gives
    every mapped class an attribute of that name;
  \<^item> \<open>http_exception_str status detail\<close> is \<^verbatim>\<open>str(e)\<close> of an \<^verbatim>\<open>HTTPException\<close>.
\<close>

record library =
  md5_hexdigest :: "string \<Rightarrow> string"
  float_repr :: "rat \<Rightarrow> string"
  json_dumps :: "json \<Rightarrow> string"
  json_loads :: "string \<Rightarrow> json option"
  isoformat :: "int \<Rightarrow> string"
  glob_match :: "string \<Rightarrow> string \<Rightarrow> bool"
  inherited_attr :: "string \<Rightarrow> bool"
  http_exception_str :: "int \<Rightarrow> string \<Rightarrow> string"

text \<open>\<^verbatim>\<open>str(n)\<close> of an integer: decimal digits, with a minus sign when negative.\<close>

fun digits :: "nat \<Rightarrow> string" where
  "digits n =
     (if n < 10 then [char_of (48 + n)]
      else digits (n div 10) @ [char_of (48 + n mod 10)])"

definition int_str :: "int \<Rightarrow> string" where
  "int_str i = (if i < 0 then CHR ''-'' # digits (nat (- i)) else digits (nat i))"

text \<open>\<^verbatim>\<open>s.lower()\<close>, on the ASCII letters.\<close>

definition lower_char :: "char \<Rightarrow> char" where
  "lower_char c =
     (if CHR ''A'' \<le> c \<and> c \<le> CHR ''Z'' then char_of (of_char c + (32::nat)) else c)"

definition lower :: "string \<Rightarrow> string" where
  "lower s = map lower_char s"

text \<open>
  A Python float: a finite number (\<open>Finite 0\<close> is \<^verbatim>\<open>0.0\<close>), the negative zero, the two
  infinities, or not a number. \<^verbatim>\<open>str\<close> writes the two zeros differently.
\<close>

datatype pyfloat = Finite rat | NegZero | PosInf | NegInf | NaN

fun float_str :: "library \<Rightarrow> pyfloat \<Rightarrow> string" where
  "float_str lib (Finite x) = (if x = 0 then ''0.0'' else float_repr lib x)"
| "float_str lib NegZero = ''-0.0''"
| "float_str lib PosInf = ''inf''"
| "float_str lib NegInf = ''-inf''"
| "float_str lib NaN = ''nan''"

text \<open>
  The place of a float among the numbers, for the comparisons of Python: the two zeros are
  the same number, and not a number has no place, so every comparison with it is false.
\<close>

fun float_num :: "pyfloat \<Rightarrow> (int \<times> rat) option" where
  "float_num (Finite x) = Some (0, x)"
| "float_num NegZero = Some (0, 0)"
| "float_num PosInf = Some (1, 0)"
| "float_num NegInf = Some (- 1, 0)"
| "float_num NaN = None"

definition float_le :: "pyfloat \<Rightarrow> pyfloat \<Rightarrow> bool" where
  "float_le a b = (case (float_num a, float_num b) of (Some x, Some y) \<Rightarrow> x \<le> y | _ \<Rightarrow> False)"

definition float_lt :: "pyfloat \<Rightarrow> pyfloat \<Rightarrow> bool" where
  "float_lt a b = (case (float_num a, float_num b) of (Some x, Some y) \<Rightarrow> x < y | _ \<Rightarrow> False)"

definition float_eq :: "pyfloat \<Rightarrow> pyfloat \<Rightarrow> bool" where
  "float_eq a b = (case (float_num a, float_num b) of (Some x, Some y) \<Rightarrow> x = y | _ \<Rightarrow> False)"

text \<open>\<^verbatim>\<open>sep.join(parts)\<close>.\<close>

fun join :: "string \<Rightarrow> string list \<Rightarrow> string" where
  "join sep [] = []"
| "join sep [x] = x"
| "join sep (x # y # ys) = x @ sep @ join sep (y # ys)"


section \<open>cache.py: the cache manager over Redis\<close>

text \<open>
  The Redis server: whether it can be reached, and for each key the stored string with
  the absolute time (in seconds) at which it expires. Every client call raises when the
  server cannot be reached. A key whose expiry time has come is no longer there.
\<close>

record redis =
  available :: bool
  entries :: "(string \<times> string \<times> nat) list"

datatype redis_error = ConnectionError | ResponseError

definition live :: "redis \<Rightarrow> nat \<Rightarrow> string \<Rightarrow> bool" where
  "live r now k =
     (case map_of (entries r) k of None \<Rightarrow> False | Some (v, expiry) \<Rightarrow> now < expiry)"

definition redis_get :: "redis \<Rightarrow> nat \<Rightarrow> string \<Rightarrow> redis_error + string option" where
  "redis_get r now k =
     (if \<not> available r then Inl ConnectionError
      else Inr (case map_of (entries r) k of
                  None \<Rightarrow> None
                | Some (v, expiry) \<Rightarrow> if now < expiry then Some v else None))"

text \<open>
  SETEX overwrites the entry of the key. It refuses a time to live that is not positive,
  and one whose expiry time, in milliseconds, is beyond the largest signed 64-bit integer.
\<close>

definition max_bigint :: int where
  "max_bigint = 2 ^ 63 - 1"

definition redis_setex ::
  "redis \<Rightarrow> nat \<Rightarrow> string \<Rightarrow> int \<Rightarrow> string \<Rightarrow> redis_error + (bool \<times> redis)" where
  "redis_setex r now k ttl v =
     (if \<not> available r then Inl ConnectionError
      else if ttl \<le> 0 \<or> 1000 * (int now + ttl) > max_bigint then Inl ResponseError
      else Inr (True,
                r\<lparr>entries := (k, v, now + nat ttl) # filter (\<lambda>e. fst e \<noteq> k) (entries r)\<rparr>))"

text \<open>DEL returns the number of keys that were removed.\<close>

definition redis_delete :: "redis \<Rightarrow> nat \<Rightarrow> string list \<Rightarrow> redis_error + (int \<times> redis)" where
  "redis_delete r now ks =
     (if \<not> available r then Inl ConnectionError
      else Inr (int (length (filter (live r now) (remdups ks))),
                r\<lparr>entries := filter (\<lambda>e. fst e \<notin> set ks) (entries r)\<rparr>))"

text \<open>KEYS returns the keys that match the pattern.\<close>

definition redis_keys :: "library \<Rightarrow> redis \<Rightarrow> nat \<Rightarrow> string \<Rightarrow> redis_error + string list" where
  "redis_keys lib r now pattern =
     (if \<not> available r then Inl ConnectionError
      else Inr (filter (\<lambda>k. live r now k \<and> glob_match lib pattern k)
                  (remdups (map fst (entries r)))))"

definition default_ttl :: int where
  "default_ttl = 300"

text \<open>
  \<^verbatim>\<open>CacheManager.get\<close>: the result is a Python value; \<^verbatim>\<open>None\<close> (here \<open>JNull\<close>) is what the
  caller receives for a miss.
\<close>

definition cache_get :: "library \<Rightarrow> redis \<Rightarrow> nat \<Rightarrow> string \<Rightarrow> json" where
  "cache_get lib r now key =
     (case redis_get r now key of
        Inl e \<Rightarrow> JNull
      | Inr value \<Rightarrow>
          (case value of
             None \<Rightarrow> JNull
           | Some s \<Rightarrow>
               if s \<noteq> [] then (case json_loads lib s of None \<Rightarrow> JNull | Some v \<Rightarrow> v)
               else JNull))"

text \<open>\<^verbatim>\<open>CacheManager.set\<close>: \<^verbatim>\<open>ttl or self.default_ttl\<close> replaces an absent or zero ttl.\<close>

definition cache_set ::
  "library \<Rightarrow> redis \<Rightarrow> nat \<Rightarrow> string \<Rightarrow> json \<Rightarrow> int option \<Rightarrow> bool \<times> redis" where
  "cache_set lib r now key value ttl =
     (let ttl' = (case ttl of None \<Rightarrow> default_ttl
                  | Some t \<Rightarrow> if t \<noteq> 0 then t else default_ttl);
          serialized_value = json_dumps lib value
      in case redis_setex r now key ttl' serialized_value of
           Inl e \<Rightarrow> (False, r)
         | Inr (ok, r') \<Rightarrow> (ok, r'))"

text \<open>\<^verbatim>\<open>CacheManager.delete\<close>: \<^verbatim>\<open>bool(self.client.delete(key))\<close>.\<close>

definition cache_delete :: "redis \<Rightarrow> nat \<Rightarrow> string \<Rightarrow> bool \<times> redis" where
  "cache_delete r now key =
     (case redis_delete r now [key] of
        Inl e \<Rightarrow> (False, r)
      | Inr (n, r') \<Rightarrow> (n \<noteq> 0, r'))"

text \<open>\<^verbatim>\<open>CacheManager.clear_pattern\<close>.\<close>

definition clear_pattern :: "library \<Rightarrow> redis \<Rightarrow> nat \<Rightarrow> string \<Rightarrow> int \<times> redis" where
  "clear_pattern lib r now pattern =
     (case redis_keys lib r now pattern of
        Inl e \<Rightarrow> (0, r)
      | Inr keys \<Rightarrow>
          if keys \<noteq> [] then
            (case redis_delete r now keys of
               Inl e \<Rightarrow> (0, r)
             | Inr (n, r') \<Rightarrow> (n, r'))
          else (0, r))"


section \<open>main.py: the cache key\<close>

text \<open>
  A keyword argument of \<^verbatim>\<open>generate_cache_key\<close> is an integer, a string or a float, or
  \<^verbatim>\<open>None\<close>. The keyword arguments are a dictionary: items in the order of the call, no key
  twice.
\<close>

datatype scalar = SInt int | SStr string | SFloat pyfloat

fun scalar_str :: "library \<Rightarrow> scalar \<Rightarrow> string" where
  "scalar_str lib (SInt i) = int_str i"
| "scalar_str lib (SStr s) = s"
| "scalar_str lib (SFloat x) = float_str lib x"

type_synonym params = "(string \<times> scalar option) list"

text \<open>
  \<^verbatim>\<open>sorted(params.items())\<close> compares the pairs; the keys of a dictionary differ, so the
  comparison is decided by the keys and the values are never compared.
\<close>

definition cache_string :: "library \<Rightarrow> string \<Rightarrow> params \<Rightarrow> string" where
  "cache_string lib endpoint ps =
     (let param_str =
            join ''&''
              (List.map_filter
                 (\<lambda>(k, v). case v of None \<Rightarrow> None | Some x \<Rightarrow> Some (k @ ''='' @ scalar_str lib x))
                 (sort_key fst ps))
      in endpoint @ ''?'' @ param_str)"

definition generate_cache_key :: "library \<Rightarrow> string \<Rightarrow> params \<Rightarrow> string" where
  "generate_cache_key lib endpoint ps = md5_hexdigest lib (cache_string lib endpoint ps)"


section \<open>models.py: the mapped classes and the database\<close>

text \<open>A datetime is modelled by a number of seconds; a float column by a rational.\<close>

record product =
  p_id :: int
  p_name :: string
  p_description :: "string option"
  p_price :: rat
  p_category :: string
  p_brand :: string
  p_stock_quantity :: int
  p_rating :: "rat option"
  p_is_active :: bool
  p_created_at :: int
  p_updated_at :: int

record user =
  u_id :: int
  u_email :: string
  u_first_name :: string
  u_last_name :: string
  u_phone :: "string option"
  u_address :: "string option"
  u_city :: string
  u_country :: string
  u_is_active :: bool
  u_created_at :: int
  u_updated_at :: int

record order =
  o_id :: int
  o_user_id :: int
  o_product_id :: int
  o_quantity :: int
  o_unit_price :: rat
  o_total_amount :: rat
  o_status :: string
  o_order_date :: int

record database =
  products :: "product list"
  users :: "user list"
  orders :: "order list"

text \<open>The relationships \<^verbatim>\<open>Order.user\<close> and \<^verbatim>\<open>Order.product\<close>, loaded with the order.\<close>

definition order_user :: "database \<Rightarrow> order \<Rightarrow> user option" where
  "order_user db ord = find (\<lambda>u. u_id u = o_user_id ord) (users db)"

definition order_product :: "database \<Rightarrow> order \<Rightarrow> product option" where
  "order_product db ord = find (\<lambda>p. p_id p = o_product_id ord) (products db)"

datatype product_column =
  PId | PName | PDescription | PPrice | PCategory | PBrand | PStockQuantity | PRating
  | PIsActive | PCreatedAt | PUpdatedAt

datatype user_column =
  UId | UEmail | UFirstName | ULastName | UPhone | UAddress | UCity | UCountry | UIsActive
  | UCreatedAt | UUpdatedAt

datatype order_column =
  OId | OUserId | OProductId | OQuantity | OUnitPrice | OTotalAmount | OStatus | OOrderDate

text \<open>
  An attribute of a mapped class is a column, a relationship, or something else (the
  table name, what the declarative base provides).
\<close>

datatype 'c attribute = Column 'c | Relationship | Other_attribute

definition Product_columns :: "(string \<times> product_column) list" where
  "Product_columns =
     [(''id'', PId), (''name'', PName), (''description'', PDescription), (''price'', PPrice),
      (''category'', PCategory), (''brand'', PBrand), (''stock_quantity'', PStockQuantity),
      (''rating'', PRating), (''is_active'', PIsActive), (''created_at'', PCreatedAt),
      (''updated_at'', PUpdatedAt)]"

definition User_columns :: "(string \<times> user_column) list" where
  "User_columns =
     [(''id'', UId), (''email'', UEmail), (''first_name'', UFirstName),
      (''last_name'', ULastName), (''phone'', UPhone), (''address'', UAddress),
      (''city'', UCity), (''country'', UCountry), (''is_active'', UIsActive),
      (''created_at'', UCreatedAt), (''updated_at'', UUpdatedAt)]"

definition Order_columns :: "(string \<times> order_column) list" where
  "Order_columns =
     [(''id'', OId), (''user_id'', OUserId), (''product_id'', OProductId),
      (''quantity'', OQuantity), (''unit_price'', OUnitPrice),
      (''total_amount'', OTotalAmount), (''status'', OStatus), (''order_date'', OOrderDate)]"

text \<open>
  The attributes of a mapped class by name: its columns, the other names that models.py
  declares in the class, and what it inherits.
\<close>

definition class_attr ::
  "library \<Rightarrow> (string \<times> 'c) list \<Rightarrow> string list \<Rightarrow> string list \<Rightarrow> string \<Rightarrow>
   'c attribute option" where
  "class_attr lib columns relationships others name =
     (case map_of columns name of
        Some c \<Rightarrow> Some (Column c)
      | None \<Rightarrow>
          if name \<in> set relationships then Some Relationship
          else if name \<in> set others \<or> inherited_attr lib name then Some Other_attribute
          else None)"

definition Product_attr :: "library \<Rightarrow> string \<Rightarrow> product_column attribute option" where
  "Product_attr lib = class_attr lib Product_columns [''orders''] [''__tablename__'']"

definition User_attr :: "library \<Rightarrow> string \<Rightarrow> user_column attribute option" where
  "User_attr lib = class_attr lib User_columns [''orders''] [''__tablename__'']"

definition Order_attr :: "library \<Rightarrow> string \<Rightarrow> order_column attribute option" where
  "Order_attr lib = class_attr lib Order_columns [''user'', ''product''] [''__tablename__'']"

text \<open>\<^verbatim>\<open>getattr(cls, name, default)\<close>.\<close>

definition getattr :: "(string \<Rightarrow> 'a option) \<Rightarrow> string \<Rightarrow> 'a \<Rightarrow> 'a" where
  "getattr cls name dflt = (case cls name of Some a \<Rightarrow> a | None \<Rightarrow> dflt)"


section \<open>The queries of the SQL engine\<close>

datatype direction = Asc | Desc

text \<open>
  \<^verbatim>\<open>ORDER BY key ASC\<close> and \<^verbatim>\<open>DESC\<close>. SQL leaves the order of rows with equal keys open;
  the model keeps them in table order when ascending.
\<close>

definition order_by :: "('r \<Rightarrow> 'k::linorder) \<Rightarrow> direction \<Rightarrow> 'r list \<Rightarrow> 'r list" where
  "order_by key d rows =
     (case d of Asc \<Rightarrow> sort_key key rows | Desc \<Rightarrow> rev (sort_key key rows))"

text \<open>The key of a nullable column: NULL sorts after every value when ascending.\<close>

definition nulls_last :: "'a option \<Rightarrow> bool \<times> 'a option" where
  "nulls_last v = (v = None, v)"

fun order_products :: "product_column \<Rightarrow> direction \<Rightarrow> product list \<Rightarrow> product list" where
  "order_products PId = order_by p_id"
| "order_products PName = order_by p_name"
| "order_products PDescription = order_by (\<lambda>p. nulls_last (p_description p))"
| "order_products PPrice = order_by p_price"
| "order_products PCategory = order_by p_category"
| "order_products PBrand = order_by p_brand"
| "order_products PStockQuantity = order_by p_stock_quantity"
| "order_products PRating = order_by (\<lambda>p. nulls_last (p_rating p))"
| "order_products PIsActive = order_by p_is_active"
| "order_products PCreatedAt = order_by p_created_at"
| "order_products PUpdatedAt = order_by p_updated_at"

fun order_users :: "user_column \<Rightarrow> direction \<Rightarrow> user list \<Rightarrow> user list" where
  "order_users UId = order_by u_id"
| "order_users UEmail = order_by u_email"
| "order_users UFirstName = order_by u_first_name"
| "order_users ULastName = order_by u_last_name"
| "order_users UPhone = order_by (\<lambda>u. nulls_last (u_phone u))"
| "order_users UAddress = order_by (\<lambda>u. nulls_last (u_address u))"
| "order_users UCity = order_by u_city"
| "order_users UCountry = order_by u_country"
| "order_users UIsActive = order_by u_is_active"
| "order_users UCreatedAt = order_by u_created_at"
| "order_users UUpdatedAt = order_by u_updated_at"

fun order_orders :: "order_column \<Rightarrow> direction \<Rightarrow> order list \<Rightarrow> order list" where
  "order_orders OId = order_by o_id"
| "order_orders OUserId = order_by o_user_id"
| "order_orders OProductId = order_by o_product_id"
| "order_orders OQuantity = order_by o_quantity"
| "order_orders OUnitPrice = order_by o_unit_price"
| "order_orders OTotalAmount = order_by o_total_amount"
| "order_orders OStatus = order_by o_status"
| "order_orders OOrderDate = order_by o_order_date"

text \<open>\<^verbatim>\<open>and_(*filters)\<close>: the conjunction of the criteria.\<close>

definition sql_and :: "('r \<Rightarrow> bool) list \<Rightarrow> 'r \<Rightarrow> bool" where
  "sql_and filters row = list_all (\<lambda>f. f row) filters"

text \<open>
  The SQL predicate \<^verbatim>\<open>s LIKE pattern\<close>: in the pattern \<^verbatim>\<open>%\<close> stands for any run of
  characters, \<^verbatim>\<open>_\<close> for any one character, and a backslash makes the character after it
  stand for itself. (The engine refuses a pattern that ends in a lone backslash; the
  patterns of crud.py end in \<^verbatim>\<open>%\<close>.)
\<close>

fun like_match :: "string \<Rightarrow> string \<Rightarrow> bool" where
  "like_match [] s = (s = [])"
| "like_match (p # ps) s =
     (if p = CHR ''%'' then
        like_match ps s \<or> (case s of [] \<Rightarrow> False | c # cs \<Rightarrow> like_match (p # ps) cs)
      else if p = CHR ''_'' then
        (case s of [] \<Rightarrow> False | c # cs \<Rightarrow> like_match ps cs)
      else if p = CHR 0x5C then
        (case ps of
           [] \<Rightarrow> False
         | q # qs \<Rightarrow> (case s of [] \<Rightarrow> False | c # cs \<Rightarrow> c = q \<and> like_match qs cs))
      else
        (case s of [] \<Rightarrow> False | c # cs \<Rightarrow> c = p \<and> like_match ps cs))"

text \<open>\<^verbatim>\<open>s ILIKE pattern\<close>: the same without regard to the case of the ASCII letters.\<close>

definition ilike :: "string \<Rightarrow> string \<Rightarrow> bool" where
  "ilike pattern s = like_match (lower pattern) (lower s)"

text \<open>\<^verbatim>\<open>column.ilike(pattern)\<close> on a nullable column is not true on NULL.\<close>

definition ilike_null :: "string \<Rightarrow> string option \<Rightarrow> bool" where
  "ilike_null pattern v = (case v of None \<Rightarrow> False | Some s \<Rightarrow> ilike pattern s)"

text \<open>
  The comparison of a float column with a float of the request, as the engine makes it:
  the two zeros are the same number, and not a number counts as greater than every number.
  The column holds a number.
\<close>

fun sql_num :: "pyfloat \<Rightarrow> int \<times> rat" where
  "sql_num (Finite x) = (0, x)"
| "sql_num NegZero = (0, 0)"
| "sql_num PosInf = (1, 0)"
| "sql_num NegInf = (- 1, 0)"
| "sql_num NaN = (2, 0)"

definition sql_ge :: "rat \<Rightarrow> pyfloat \<Rightarrow> bool" where
  "sql_ge x bound = (sql_num bound \<le> (0, x))"

definition sql_le :: "rat \<Rightarrow> pyfloat \<Rightarrow> bool" where
  "sql_le x bound = ((0, x) \<le> sql_num bound)"

datatype py_error = AttributeError | NotImplementedError | DataError | ZeroDivisionError

text \<open>The dictionary that the list functions of crud.py return.\<close>

record 'r page_result =
  r_items :: "'r list"
  r_total :: int
  r_page :: int
  r_size :: int
  r_pages :: int

text \<open>
  The end of each list function, the same lines in all three: the ordering, the page of
  rows, and the result dictionary. \<open>query\<close> is the rows that passed the filters and
  \<open>total_rows\<close> their count. An attribute that is no column cannot be ordered by: a
  relationship does not implement \<^verbatim>\<open>desc()\<close> and \<^verbatim>\<open>asc()\<close>, other attributes do not have
  them. The engine refuses an OFFSET or LIMIT that is negative or beyond the largest signed
  64-bit integer; \<^verbatim>\<open>skip // limit\<close> raises on a zero limit. \<^verbatim>\<open>math.ceil(total / limit)\<close> is
  taken on the exact quotient.
\<close>

definition sorted_page ::
  "('c \<Rightarrow> direction \<Rightarrow> 'r list \<Rightarrow> 'r list) \<Rightarrow> 'c attribute \<Rightarrow> string \<Rightarrow> int \<Rightarrow> int \<Rightarrow>
   'r list \<Rightarrow> int \<Rightarrow> py_error + 'r page_result" where
  "sorted_page order sort_column sort_order skip limit query total_rows =
     (case sort_column of
        Relationship \<Rightarrow> Inl NotImplementedError
      | Other_attribute \<Rightarrow> Inl AttributeError
      | Column c \<Rightarrow>
          let query' = (if lower sort_order = ''desc'' then order c Desc query
                        else order c Asc query)
          in if skip < 0 \<or> limit < 0 \<or> skip > max_bigint \<or> limit > max_bigint
             then Inl DataError
             else
               let items = take (nat limit) (drop (nat skip) query')
               in if limit = 0 then Inl ZeroDivisionError
                  else Inr \<lparr>r_items = items, r_total = total_rows, r_page = skip div limit + 1,
                            r_size = limit,
                            r_pages = \<lceil>rat_of_int total_rows / rat_of_int limit\<rceil>\<rparr>)"


section \<open>crud.py\<close>

text \<open>
  The functions of crud.py carry the names under which main.py imports them
  (\<^verbatim>\<open>get_products as get_products_crud\<close>), since main.py has functions of the same names.
\<close>

text \<open>\<^verbatim>\<open>if search:\<close> on an optional string, \<^verbatim>\<open>if user_id:\<close> on an optional integer.\<close>

fun str_given :: "string option \<Rightarrow> bool" where
  "str_given None = False"
| "str_given (Some s) = (s \<noteq> [])"

fun int_given :: "int option \<Rightarrow> bool" where
  "int_given None = False"
| "int_given (Some n) = (n \<noteq> 0)"

text \<open>The filters that each list function appends, in its order.\<close>

definition product_filters ::
  "string option \<Rightarrow> string option \<Rightarrow> string option \<Rightarrow> pyfloat option \<Rightarrow> pyfloat option \<Rightarrow>
   (product \<Rightarrow> bool) list" where
  "product_filters search category brand min_price max_price =
     (if str_given search then
        [\<lambda>p. ilike (''%'' @ the search @ ''%'') (p_name p)
            \<or> ilike_null (''%'' @ the search @ ''%'') (p_description p)
            \<or> ilike (''%'' @ the search @ ''%'') (p_brand p)]
      else [])
     @ (if str_given category then [\<lambda>p. p_category p = the category] else [])
     @ (if str_given brand then [\<lambda>p. p_brand p = the brand] else [])
     @ (if min_price \<noteq> None then [\<lambda>p. sql_ge (p_price p) (the min_price)] else [])
     @ (if max_price \<noteq> None then [\<lambda>p. sql_le (p_price p) (the max_price)] else [])"

definition get_products_crud ::
  "library \<Rightarrow> database \<Rightarrow> int \<Rightarrow> int \<Rightarrow> string option \<Rightarrow> string option \<Rightarrow> string option \<Rightarrow>
   pyfloat option \<Rightarrow> pyfloat option \<Rightarrow> string \<Rightarrow> string \<Rightarrow> py_error + product page_result" where
  "get_products_crud lib db skip limit search category brand min_price max_price sort_by sort_order =
     (let query = products db;
          filters = product_filters search category brand min_price max_price;
          query = (if filters \<noteq> [] then filter (sql_and filters) query else query);
          total = int (length query);
          sort_column = getattr (Product_attr lib) sort_by (Column PId)
      in sorted_page order_products sort_column sort_order skip limit query total)"

definition get_product_crud :: "database \<Rightarrow> int \<Rightarrow> product option" where
  "get_product_crud db product_id = find (\<lambda>p. p_id p = product_id) (products db)"

definition user_filters ::
  "string option \<Rightarrow> string option \<Rightarrow> string option \<Rightarrow> (user \<Rightarrow> bool) list" where
  "user_filters search city country =
     (if str_given search then
        [\<lambda>u. ilike (''%'' @ the search @ ''%'') (u_first_name u)
            \<or> ilike (''%'' @ the search @ ''%'') (u_last_name u)
            \<or> ilike (''%'' @ the search @ ''%'') (u_email u)]
      else [])
     @ (if str_given city then [\<lambda>u. u_city u = the city] else [])
     @ (if str_given country then [\<lambda>u. u_country u = the country] else [])"

definition get_users_crud ::
  "library \<Rightarrow> database \<Rightarrow> int \<Rightarrow> int \<Rightarrow> string option \<Rightarrow> string option \<Rightarrow> string option \<Rightarrow>
   string \<Rightarrow> string \<Rightarrow> py_error + user page_result" where
  "get_users_crud lib db skip limit search city country sort_by sort_order =
     (let query = users db;
          filters = user_filters search city country;
          query = (if filters \<noteq> [] then filter (sql_and filters) query else query);
          total = int (length query);
          sort_column = getattr (User_attr lib) sort_by (Column UId)
      in sorted_page order_users sort_column sort_order skip limit query total)"

definition order_filters :: "int option \<Rightarrow> string option \<Rightarrow> (order \<Rightarrow> bool) list" where
  "order_filters user_id status =
     (if int_given user_id then [\<lambda>ord. o_user_id ord = the user_id] else [])
     @ (if str_given status then [\<lambda>ord. o_status ord = the status] else [])"

definition get_orders_crud ::
  "library \<Rightarrow> database \<Rightarrow> int \<Rightarrow> int \<Rightarrow> int option \<Rightarrow> string option \<Rightarrow>
   string \<Rightarrow> string \<Rightarrow> py_error + order page_result" where
  "get_orders_crud lib db skip limit user_id status sort_by sort_order =
     (let query = orders db;
          filters = order_filters user_id status;
          query = (if filters \<noteq> [] then filter (sql_and filters) query else query);
          total = int (length query);
          sort_column = getattr (Order_attr lib) sort_by (Column OId)
      in sorted_page order_orders sort_column sort_order skip limit query total)"

definition get_user_crud :: "database \<Rightarrow> int \<Rightarrow> user option" where
  "get_user_crud db user_id = find (\<lambda>u. u_id u = user_id) (users db)"

definition get_order_crud :: "database \<Rightarrow> int \<Rightarrow> order option" where
  "get_order_crud db order_id = find (\<lambda>ord. o_id ord = order_id) (orders db)"


text \<open>
  A storage failure: \<open>fault i = Some msg\<close> says that the \<open>i\<close>-th storage operation of
  the call raises an exception whose text is \<open>msg\<close>.
\<close>

type_synonym fault = "nat \<Rightarrow> string option"

text \<open>
  A session: the committed state of the database and the state that the open transaction
  sees. \<^verbatim>\<open>commit\<close> makes the second the first, \<^verbatim>\<open>rollback\<close> the first the second.
\<close>

record session =
  committed :: database
  working :: database

definition storage_op :: "fault \<Rightarrow> nat \<Rightarrow> 'a \<Rightarrow> string + 'a" where
  "storage_op fault i result = (case fault i of Some msg \<Rightarrow> Inl msg | None \<Rightarrow> Inr result)"

definition and_then :: "string + 'a \<Rightarrow> ('a \<Rightarrow> string + 'b) \<Rightarrow> string + 'b" where
  "and_then r f = (case r of Inl msg \<Rightarrow> Inl msg | Inr x \<Rightarrow> f x)"

definition rollback :: "session \<Rightarrow> session" where
  "rollback db = db\<lparr>working := committed db\<rparr>"

record deleted_counts =
  orders_deleted :: int
  users_deleted :: int
  products_deleted :: int

record truncate_result =
  success :: bool
  message :: string
  counts :: deleted_counts

definition truncate_all_data :: "fault \<Rightarrow> session \<Rightarrow> truncate_result \<times> session" where
  "truncate_all_data fault db =
     (case
        and_then (storage_op fault 0 (int (length (orders (working db))))) (\<lambda>n_orders.
        and_then (storage_op fault 1 (db\<lparr>working := (working db)\<lparr>orders := []\<rparr>\<rparr>)) (\<lambda>db1.
        and_then (storage_op fault 2 (int (length (users (working db1))))) (\<lambda>n_users.
        and_then (storage_op fault 3 (db1\<lparr>working := (working db1)\<lparr>users := []\<rparr>\<rparr>)) (\<lambda>db2.
        and_then (storage_op fault 4 (int (length (products (working db2))))) (\<lambda>n_products.
        and_then (storage_op fault 5 (db2\<lparr>working := (working db2)\<lparr>products := []\<rparr>\<rparr>)) (\<lambda>db3.
        and_then (storage_op fault 6 (db3\<lparr>committed := working db3\<rparr>)) (\<lambda>db4.
          Inr (\<lparr>success = True, message = ''All data truncated successfully'',
                 counts = \<lparr>orders_deleted = n_orders, users_deleted = n_users,
                            products_deleted = n_products\<rparr>\<rparr>, db4))))))))
      of
        Inr (result, db') \<Rightarrow> (result, db')
      | Inl e \<Rightarrow>
          (\<lparr>success = False, message = ''Error truncating data: '' @ e,
            counts = \<lparr>orders_deleted = 0, users_deleted = 0, products_deleted = 0\<rparr>\<rparr>,
           rollback db))"


section \<open>schemas.py: enumerations and query parameters\<close>

datatype ProductSortFields =
  PS_id | PS_name | PS_price | PS_category | PS_brand | PS_stock_quantity | PS_rating
  | PS_created_at | PS_updated_at

fun ProductSortFields_value :: "ProductSortFields \<Rightarrow> string" where
  "ProductSortFields_value PS_id = ''id''"
| "ProductSortFields_value PS_name = ''name''"
| "ProductSortFields_value PS_price = ''price''"
| "ProductSortFields_value PS_category = ''category''"
| "ProductSortFields_value PS_brand = ''brand''"
| "ProductSortFields_value PS_stock_quantity = ''stock_quantity''"
| "ProductSortFields_value PS_rating = ''rating''"
| "ProductSortFields_value PS_created_at = ''created_at''"
| "ProductSortFields_value PS_updated_at = ''updated_at''"

datatype UserSortFields =
  US_id | US_email | US_first_name | US_last_name | US_city | US_country | US_created_at

fun UserSortFields_value :: "UserSortFields \<Rightarrow> string" where
  "UserSortFields_value US_id = ''id''"
| "UserSortFields_value US_email = ''email''"
| "UserSortFields_value US_first_name = ''first_name''"
| "UserSortFields_value US_last_name = ''last_name''"
| "UserSortFields_value US_city = ''city''"
| "UserSortFields_value US_country = ''country''"
| "UserSortFields_value US_created_at = ''created_at''"

datatype OrderSortFields =
  OS_id | OS_user_id | OS_product_id | OS_quantity | OS_unit_price | OS_total_amount
  | OS_status | OS_order_date

fun OrderSortFields_value :: "OrderSortFields \<Rightarrow> string" where
  "OrderSortFields_value OS_id = ''id''"
| "OrderSortFields_value OS_user_id = ''user_id''"
| "OrderSortFields_value OS_product_id = ''product_id''"
| "OrderSortFields_value OS_quantity = ''quantity''"
| "OrderSortFields_value OS_unit_price = ''unit_price''"
| "OrderSortFields_value OS_total_amount = ''total_amount''"
| "OrderSortFields_value OS_status = ''status''"
| "OrderSortFields_value OS_order_date = ''order_date''"

datatype SortOrder = SO_asc | SO_desc

fun SortOrder_value :: "SortOrder \<Rightarrow> string" where
  "SortOrder_value SO_asc = ''asc''"
| "SortOrder_value SO_desc = ''desc''"

datatype OrderStatus = pending | confirmed | shipped | delivered | cancelled

fun OrderStatus_value :: "OrderStatus \<Rightarrow> string" where
  "OrderStatus_value pending = ''pending''"
| "OrderStatus_value confirmed = ''confirmed''"
| "OrderStatus_value shipped = ''shipped''"
| "OrderStatus_value delivered = ''delivered''"
| "OrderStatus_value cancelled = ''cancelled''"

text \<open>
  The validation of a \<^verbatim>\<open>status\<close> query parameter of type \<^verbatim>\<open>Optional[OrderStatus]\<close>: the
  member whose value is the given string, or a rejection.
\<close>

definition OrderStatus_members :: "OrderStatus list" where
  "OrderStatus_members = [pending, confirmed, shipped, delivered, cancelled]"

definition OrderStatus_validate :: "string \<Rightarrow> OrderStatus option" where
  "OrderStatus_validate s = find (\<lambda>m. OrderStatus_value m = s) OrderStatus_members"

record ProductQueryParams =
  pq_page :: int
  pq_size :: int
  pq_search :: "string option"
  pq_category :: "string option"
  pq_brand :: "string option"
  pq_min_price :: "pyfloat option"
  pq_max_price :: "pyfloat option"
  pq_sort_by :: ProductSortFields
  pq_sort_order :: SortOrder

record UserQueryParams =
  uq_page :: int
  uq_size :: int
  uq_search :: "string option"
  uq_city :: "string option"
  uq_country :: "string option"
  uq_sort_by :: UserSortFields
  uq_sort_order :: SortOrder

record OrderQueryParams =
  oq_page :: int
  oq_size :: int
  oq_user_id :: "int option"
  oq_status :: "OrderStatus option"
  oq_sort_by :: OrderSortFields
  oq_sort_order :: SortOrder

text \<open>The constraints that the \<^verbatim>\<open>Field\<close> declarations and the validators put on the fields.\<close>

definition max_length :: "nat \<Rightarrow> string option \<Rightarrow> bool" where
  "max_length n v = (case v of None \<Rightarrow> True | Some s \<Rightarrow> length s \<le> n)"

definition ge_opt :: "'a::linorder \<Rightarrow> 'a option \<Rightarrow> bool" where
  "ge_opt b v = (case v of None \<Rightarrow> True | Some x \<Rightarrow> b \<le> x)"

definition float_ge_opt :: "pyfloat \<Rightarrow> pyfloat option \<Rightarrow> bool" where
  "float_ge_opt b v = (case v of None \<Rightarrow> True | Some x \<Rightarrow> float_le b x)"

definition ProductQueryParams_valid :: "ProductQueryParams \<Rightarrow> bool" where
  "ProductQueryParams_valid p =
     (1 \<le> pq_page p \<and> 1 \<le> pq_size p \<and> pq_size p \<le> 1000
      \<and> max_length 255 (pq_search p) \<and> max_length 100 (pq_category p)
      \<and> max_length 100 (pq_brand p)
      \<and> float_ge_opt (Finite 0) (pq_min_price p) \<and> float_ge_opt (Finite 0) (pq_max_price p)
      \<and> (case (pq_max_price p, pq_min_price p) of
            (Some v, Some lo) \<Rightarrow> \<not> float_lt v lo
          | _ \<Rightarrow> True)
      \<and> pq_sort_order p \<in> set [SO_asc, SO_desc])"

definition UserQueryParams_valid :: "UserQueryParams \<Rightarrow> bool" where
  "UserQueryParams_valid p =
     (1 \<le> uq_page p \<and> 1 \<le> uq_size p \<and> uq_size p \<le> 1000
      \<and> max_length 255 (uq_search p) \<and> max_length 100 (uq_city p)
      \<and> max_length 100 (uq_country p)
      \<and> uq_sort_order p \<in> set [SO_asc, SO_desc])"

definition OrderQueryParams_valid :: "OrderQueryParams \<Rightarrow> bool" where
  "OrderQueryParams_valid p =
     (1 \<le> oq_page p \<and> 1 \<le> oq_size p \<and> oq_size p \<le> 1000
      \<and> ge_opt 1 (oq_user_id p)
      \<and> oq_sort_order p \<in> set [SO_asc, SO_desc])"


section \<open>seed\_data.py\<close>

text \<open>The statuses from which \<^verbatim>\<open>seed_orders\<close> draws the status of each order it creates.\<close>

definition statuses :: "string list" where
  "statuses = [''pending'', ''processing'', ''shipped'', ''delivered'', ''cancelled'']"


section \<open>main.py: the endpoints\<close>

text \<open>
  An endpoint answers with a response or raises: an \<^verbatim>\<open>HTTPException\<close> with its status
  code and detail, or an exception that nothing catches.
\<close>

datatype http_error = HTTPException int string | Unhandled py_error

definition opt_str :: "string option \<Rightarrow> json" where
  "opt_str v = (case v of None \<Rightarrow> JNull | Some s \<Rightarrow> JStr s)"

definition opt_float :: "rat option \<Rightarrow> json" where
  "opt_float v = (case v of None \<Rightarrow> JNull | Some x \<Rightarrow> JFloat x)"

definition product_dict :: "library \<Rightarrow> product \<Rightarrow> json" where
  "product_dict lib item =
     JDict [(''id'', JInt (p_id item)),
            (''name'', JStr (p_name item)),
            (''description'', opt_str (p_description item)),
            (''price'', JFloat (p_price item)),
            (''category'', JStr (p_category item)),
            (''brand'', JStr (p_brand item)),
            (''stock_quantity'', JInt (p_stock_quantity item)),
            (''rating'', opt_float (p_rating item)),
            (''is_active'', JBool (p_is_active item)),
            (''created_at'', JStr (isoformat lib (p_created_at item))),
            (''updated_at'', JStr (isoformat lib (p_updated_at item)))]"

definition user_dict :: "library \<Rightarrow> user \<Rightarrow> json" where
  "user_dict lib item =
     JDict [(''id'', JInt (u_id item)),
            (''email'', JStr (u_email item)),
            (''first_name'', JStr (u_first_name item)),
            (''last_name'', JStr (u_last_name item)),
            (''phone'', opt_str (u_phone item)),
            (''address'', opt_str (u_address item)),
            (''city'', JStr (u_city item)),
            (''country'', JStr (u_country item)),
            (''is_active'', JBool (u_is_active item)),
            (''created_at'', JStr (isoformat lib (u_created_at item)))]"

definition order_dict :: "library \<Rightarrow> database \<Rightarrow> order \<Rightarrow> json" where
  "order_dict lib db item =
     JDict [(''id'', JInt (o_id item)),
            (''user_id'', JInt (o_user_id item)),
            (''product_id'', JInt (o_product_id item)),
            (''quantity'', JInt (o_quantity item)),
            (''unit_price'', JFloat (o_unit_price item)),
            (''total_amount'', JFloat (o_total_amount item)),
            (''status'', JStr (o_status item)),
            (''order_date'', JStr (isoformat lib (o_order_date item))),
            (''user'', case order_user db item of None \<Rightarrow> JNull | Some u \<Rightarrow> user_dict lib u),
            (''product'',
               case order_product db item of None \<Rightarrow> JNull | Some p \<Rightarrow> product_dict lib p)]"

definition response_data :: "json list \<Rightarrow> 'r page_result \<Rightarrow> json" where
  "response_data items_dict result =
     JDict [(''items'', JList items_dict),
            (''total'', JInt (r_total result)),
            (''page'', JInt (r_page result)),
            (''size'', JInt (r_size result)),
            (''pages'', JInt (r_pages result))]"

definition sort_order_detail :: string where
  "sort_order_detail = ''sort_order must be either 'asc' or 'desc'' @ [CHR 0x27]"

text \<open>The cache key that each list endpoint computes from its parameters.\<close>

definition products_cache_key :: "library \<Rightarrow> ProductQueryParams \<Rightarrow> string" where
  "products_cache_key lib params =
     generate_cache_key lib ''products''
       [(''page'', Some (SInt (pq_page params))),
        (''size'', Some (SInt (pq_size params))),
        (''search'', map_option SStr (pq_search params)),
        (''category'', map_option SStr (pq_category params)),
        (''brand'', map_option SStr (pq_brand params)),
        (''min_price'', map_option SFloat (pq_min_price params)),
        (''max_price'', map_option SFloat (pq_max_price params)),
        (''sort_by'', Some (SStr (ProductSortFields_value (pq_sort_by params)))),
        (''sort_order'', Some (SStr (SortOrder_value (pq_sort_order params))))]"

definition users_cache_key :: "library \<Rightarrow> UserQueryParams \<Rightarrow> string" where
  "users_cache_key lib params =
     generate_cache_key lib ''users''
       [(''page'', Some (SInt (uq_page params))),
        (''size'', Some (SInt (uq_size params))),
        (''search'', map_option SStr (uq_search params)),
        (''city'', map_option SStr (uq_city params)),
        (''country'', map_option SStr (uq_country params)),
        (''sort_by'', Some (SStr (UserSortFields_value (uq_sort_by params)))),
        (''sort_order'', Some (SStr (SortOrder_value (uq_sort_order params))))]"

definition orders_cache_key :: "library \<Rightarrow> OrderQueryParams \<Rightarrow> string" where
  "orders_cache_key lib params =
     generate_cache_key lib ''orders''
       [(''page'', Some (SInt (oq_page params))),
        (''size'', Some (SInt (oq_size params))),
        (''user_id'', map_option SInt (oq_user_id params)),
        (''status'', map_option SStr (map_option OrderStatus_value (oq_status params))),
        (''sort_by'', Some (SStr (OrderSortFields_value (oq_sort_by params)))),
        (''sort_order'', Some (SStr (SortOrder_value (oq_sort_order params))))]"

definition get_products ::
  "library \<Rightarrow> redis \<Rightarrow> nat \<Rightarrow> database \<Rightarrow> ProductQueryParams \<Rightarrow> http_error + (json \<times> redis)" where
  "get_products lib cache now db params =
     (if SortOrder_value (pq_sort_order params) \<notin> set [''asc'', ''desc''] then
        Inl (HTTPException 400 sort_order_detail)
      else if pq_page params < 1 then
        Inl (HTTPException 400 ''Page must be greater than 0'')
      else if pq_size params < 1 \<or> pq_size params > 1000 then
        Inl (HTTPException 400 ''Size must be between 1 and 1000'')
      else
        let cache_key = products_cache_key lib params;
            cached_result = cache_get lib cache now cache_key
        in if truthy cached_result then Inr (cached_result, cache)
           else
             let skip = (pq_page params - 1) * pq_size params
             in case get_products_crud lib db skip (pq_size params) (pq_search params)
                       (pq_category params) (pq_brand params) (pq_min_price params)
                       (pq_max_price params) (ProductSortFields_value (pq_sort_by params))
                       (SortOrder_value (pq_sort_order params)) of
                  Inl e \<Rightarrow> Inl (Unhandled e)
                | Inr result \<Rightarrow>
                    let items_dict = map (product_dict lib) (r_items result);
                        response = response_data items_dict result
                    in Inr (response, snd (cache_set lib cache now cache_key response (Some 300))))"

definition get_users ::
  "library \<Rightarrow> redis \<Rightarrow> nat \<Rightarrow> database \<Rightarrow> UserQueryParams \<Rightarrow> http_error + (json \<times> redis)" where
  "get_users lib cache now db params =
     (if SortOrder_value (uq_sort_order params) \<notin> set [''asc'', ''desc''] then
        Inl (HTTPException 400 sort_order_detail)
      else if uq_page params < 1 then
        Inl (HTTPException 400 ''Page must be greater than 0'')
      else if uq_size params < 1 \<or> uq_size params > 1000 then
        Inl (HTTPException 400 ''Size must be between 1 and 1000'')
      else
        let cache_key = users_cache_key lib params;
            cached_result = cache_get lib cache now cache_key
        in if truthy cached_result then Inr (cached_result, cache)
           else
             let skip = (uq_page params - 1) * uq_size params
             in case get_users_crud lib db skip (uq_size params) (uq_search params)
                       (uq_city params) (uq_country params)
                       (UserSortFields_value (uq_sort_by params))
                       (SortOrder_value (uq_sort_order params)) of
                  Inl e \<Rightarrow> Inl (Unhandled e)
                | Inr result \<Rightarrow>
                    let items_dict = map (user_dict lib) (r_items result);
                        response = response_data items_dict result
                    in Inr (response, snd (cache_set lib cache now cache_key response (Some 300))))"

definition get_orders ::
  "library \<Rightarrow> redis \<Rightarrow> nat \<Rightarrow> database \<Rightarrow> OrderQueryParams \<Rightarrow> http_error + (json \<times> redis)" where
  "get_orders lib cache now db params =
     (if SortOrder_value (oq_sort_order params) \<notin> set [''asc'', ''desc''] then
        Inl (HTTPException 400 sort_order_detail)
      else if oq_page params < 1 then
        Inl (HTTPException 400 ''Page must be greater than 0'')
      else if oq_size params < 1 \<or> oq_size params > 1000 then
        Inl (HTTPException 400 ''Size must be between 1 and 1000'')
      else if oq_user_id params \<noteq> None \<and> the (oq_user_id params) < 1 then
        Inl (HTTPException 400 ''User ID must be greater than 0'')
      else
        let status = map_option OrderStatus_value (oq_status params);
            cache_key = orders_cache_key lib params;
            cached_result = cache_get lib cache now cache_key
        in if truthy cached_result then Inr (cached_result, cache)
           else
             let skip = (oq_page params - 1) * oq_size params
             in case get_orders_crud lib db skip (oq_size params) (oq_user_id params) status
                       (OrderSortFields_value (oq_sort_by params))
                       (SortOrder_value (oq_sort_order params)) of
                  Inl e \<Rightarrow> Inl (Unhandled e)
                | Inr result \<Rightarrow>
                    let items_dict = map (order_dict lib db) (r_items result);
                        response = response_data items_dict result
                    in Inr (response, snd (cache_set lib cache now cache_key response (Some 300))))"

text \<open>
  \<^verbatim>\<open>truncate_all_data_endpoint\<close>: the truncation, then the clearing of the cache, then the
  response. The \<^verbatim>\<open>HTTPException\<close> raised for a failed truncation is caught by the
  handler's own \<^verbatim>\<open>except Exception\<close> and raised again with a longer detail.
\<close>

definition truncate_all_data_endpoint ::
  "library \<Rightarrow> fault \<Rightarrow> redis \<Rightarrow> nat \<Rightarrow> session \<Rightarrow> (http_error + json) \<times> redis \<times> session" where
  "truncate_all_data_endpoint lib fault cache now db =
     (let (result, db') = truncate_all_data fault db;
          (cleared, cache') = clear_pattern lib cache now ''*''
      in if success result then
           (Inr (JDict [(''message'', JStr (message result)),
                        (''deleted_counts'',
                           JDict [(''orders'', JInt (orders_deleted (counts result))),
                                  (''users'', JInt (users_deleted (counts result))),
                                  (''products'', JInt (products_deleted (counts result)))]),
                        (''cache_cleared'', JBool True)]),
            cache', db')
         else
           (Inl (HTTPException 500
                   (''Failed to truncate data: '' @ http_exception_str lib 500 (message result))),
            cache', db'))"


section \<open>What the specification speaks of\<close>

text \<open>The key/value pairs of a parameter dictionary whose value is not \<^verbatim>\<open>None\<close>.\<close>

definition present :: "params \<Rightarrow> (string \<times> scalar) set" where
  "present ps = {(k, v). (k, Some v) \<in> set ps}"

text \<open>
  Two parameter dictionaries carry the same pairs in the sense of Python when every
  present pair of the one has in the other a present pair with the same key and an equal
  value. Python's equality on the values: numbers are equal when they are the same number,
  an integer or a float, and a string equals only the same string.
\<close>

fun py_eq :: "scalar \<Rightarrow> scalar \<Rightarrow> bool" where
  "py_eq (SInt i) (SInt j) = (i = j)"
| "py_eq (SStr s) (SStr t) = (s = t)"
| "py_eq (SFloat a) (SFloat b) = float_eq a b"
| "py_eq (SInt i) (SFloat b) = float_eq (Finite (rat_of_int i)) b"
| "py_eq (SFloat a) (SInt j) = float_eq a (Finite (rat_of_int j))"
| "py_eq _ _ = False"

definition covers :: "params \<Rightarrow> params \<Rightarrow> bool" where
  "covers ps qs =
     list_all
       (\<lambda>(k, v). case v of
                   None \<Rightarrow> True
                 | Some x \<Rightarrow> (case map_of qs k of Some (Some y) \<Rightarrow> py_eq x y | _ \<Rightarrow> False))
       ps"

definition same_pairs :: "params \<Rightarrow> params \<Rightarrow> bool" where
  "same_pairs ps qs = (covers ps qs \<and> covers qs ps)"

text \<open>
  A text contains a search term, without regard to case, when the term in lower case is
  a run of consecutive characters of the text in lower case.
\<close>

definition icontains :: "string \<Rightarrow> string \<Rightarrow> bool" where
  "icontains needle s = sublist (lower needle) (lower s)"

definition icontains_null :: "string \<Rightarrow> string option \<Rightarrow> bool" where
  "icontains_null needle v = (case v of None \<Rightarrow> False | Some s \<Rightarrow> icontains needle s)"

text \<open>
  A product satisfies a filter set when it satisfies every filter that is given: the
  search term is contained, without regard to case, in the name, the description or the
  brand; the category and the brand are the given ones; the price is at least the lower
  bound and at most the upper bound.
\<close>

definition product_satisfies ::
  "string option \<Rightarrow> string option \<Rightarrow> string option \<Rightarrow> pyfloat option \<Rightarrow> pyfloat option \<Rightarrow>
   product \<Rightarrow> bool" where
  "product_satisfies search category brand min_price max_price p =
     ((case search of None \<Rightarrow> True
       | Some s \<Rightarrow> icontains s (p_name p) \<or> icontains_null s (p_description p)
                  \<or> icontains s (p_brand p))
      \<and> (case category of None \<Rightarrow> True | Some c \<Rightarrow> p_category p = c)
      \<and> (case brand of None \<Rightarrow> True | Some b \<Rightarrow> p_brand p = b)
      \<and> (case min_price of None \<Rightarrow> True | Some lo \<Rightarrow> float_le lo (Finite (p_price p)))
      \<and> (case max_price of None \<Rightarrow> True | Some hi \<Rightarrow> float_le (Finite (p_price p)) hi))"

text \<open>
  A search term is plain when it has none of the characters that mean something else in
  a LIKE pattern.
\<close>

definition plain :: "string option \<Rightarrow> bool" where
  "plain search =
     (case search of
        None \<Rightarrow> True
      | Some s \<Rightarrow> CHR ''%'' \<notin> set s \<and> CHR ''_'' \<notin> set s \<and> CHR 0x5C \<notin> set s)"

text \<open>An attribute name can be sorted by when it names a column or no attribute at all.\<close>

definition sortable :: "(string \<Rightarrow> 'c attribute option) \<Rightarrow> string \<Rightarrow> bool" where
  "sortable cls name =
     (case cls name of None \<Rightarrow> True | Some (Column c) \<Rightarrow> True | Some _ \<Rightarrow> False)"

definition order_satisfies :: "int option \<Rightarrow> string option \<Rightarrow> order \<Rightarrow> bool" where
  "order_satisfies user_id status ord =
     ((case user_id of None \<Rightarrow> True | Some u \<Rightarrow> o_user_id ord = u)
      \<and> (case status of None \<Rightarrow> True | Some s \<Rightarrow> o_status ord = s))"

text \<open>A filter set in which an empty string, or a zero user id, counts as not given.\<close>

fun nonempty :: "string option \<Rightarrow> string option" where
  "nonempty None = None"
| "nonempty (Some s) = (if s = [] then None else Some s)"

fun nonzero :: "int option \<Rightarrow> int option" where
  "nonzero None = None"
| "nonzero (Some n) = (if n = 0 then None else Some n)"

text \<open>The column that a sort field of schemas.py names, and the requested direction.\<close>

fun ProductSortFields_column :: "ProductSortFields \<Rightarrow> product_column" where
  "ProductSortFields_column PS_id = PId"
| "ProductSortFields_column PS_name = PName"
| "ProductSortFields_column PS_price = PPrice"
| "ProductSortFields_column PS_category = PCategory"
| "ProductSortFields_column PS_brand = PBrand"
| "ProductSortFields_column PS_stock_quantity = PStockQuantity"
| "ProductSortFields_column PS_rating = PRating"
| "ProductSortFields_column PS_created_at = PCreatedAt"
| "ProductSortFields_column PS_updated_at = PUpdatedAt"

fun OrderSortFields_column :: "OrderSortFields \<Rightarrow> order_column" where
  "OrderSortFields_column OS_id = OId"
| "OrderSortFields_column OS_user_id = OUserId"
| "OrderSortFields_column OS_product_id = OProductId"
| "OrderSortFields_column OS_quantity = OQuantity"
| "OrderSortFields_column OS_unit_price = OUnitPrice"
| "OrderSortFields_column OS_total_amount = OTotalAmount"
| "OrderSortFields_column OS_status = OStatus"
| "OrderSortFields_column OS_order_date = OOrderDate"

definition requested_direction :: "string \<Rightarrow> direction" where
  "requested_direction sort_order = (if lower sort_order = ''desc'' then Desc else Asc)"

text \<open>
  One row comes no later than another by a sort field: its value in that field is less or
  equal. A missing rating is greater than every rating.
\<close>

fun le_null :: "'a::linorder option \<Rightarrow> 'a option \<Rightarrow> bool" where
  "le_null _ None = True"
| "le_null None (Some y) = False"
| "le_null (Some x) (Some y) = (x \<le> y)"

fun product_le :: "ProductSortFields \<Rightarrow> product \<Rightarrow> product \<Rightarrow> bool" where
  "product_le PS_id a b = (p_id a \<le> p_id b)"
| "product_le PS_name a b = (p_name a \<le> p_name b)"
| "product_le PS_price a b = (p_price a \<le> p_price b)"
| "product_le PS_category a b = (p_category a \<le> p_category b)"
| "product_le PS_brand a b = (p_brand a \<le> p_brand b)"
| "product_le PS_stock_quantity a b = (p_stock_quantity a \<le> p_stock_quantity b)"
| "product_le PS_rating a b = le_null (p_rating a) (p_rating b)"
| "product_le PS_created_at a b = (p_created_at a \<le> p_created_at b)"
| "product_le PS_updated_at a b = (p_updated_at a \<le> p_updated_at b)"

fun order_le :: "OrderSortFields \<Rightarrow> order \<Rightarrow> order \<Rightarrow> bool" where
  "order_le OS_id a b = (o_id a \<le> o_id b)"
| "order_le OS_user_id a b = (o_user_id a \<le> o_user_id b)"
| "order_le OS_product_id a b = (o_product_id a \<le> o_product_id b)"
| "order_le OS_quantity a b = (o_quantity a \<le> o_quantity b)"
| "order_le OS_unit_price a b = (o_unit_price a \<le> o_unit_price b)"
| "order_le OS_total_amount a b = (o_total_amount a \<le> o_total_amount b)"
| "order_le OS_status a b = (o_status a \<le> o_status b)"
| "order_le OS_order_date a b = (o_order_date a \<le> o_order_date b)"

text \<open>A list is in the requested direction by a relation \<open>le\<close> of this kind.\<close>

definition in_direction :: "direction \<Rightarrow> ('r \<Rightarrow> 'r \<Rightarrow> bool) \<Rightarrow> 'r list \<Rightarrow> bool" where
  "in_direction d le rows =
     (case d of Asc \<Rightarrow> sorted_wrt le rows | Desc \<Rightarrow> sorted_wrt (\<lambda>a b. le b a) rows)"

text \<open>
  Stand-ins for the library functions, for evaluating the model on concrete inputs: the
  hash is the identity, and the JSON codec knows \<^verbatim>\<open>null\<close>, the booleans, the integer 42,
  the empty dictionary and one list response.
\<close>

definition example_codec :: "(string \<times> json) list" where
  "example_codec =
     [(''null'', JNull),
      (''true'', JBool True),
      (''false'', JBool False),
      (''42'', JInt 42),
      (''{}'', JDict []),
      (''{items: [], total: 0, page: 7, size: 50, pages: 0}'',
       JDict [(''items'', JList []), (''total'', JInt 0), (''page'', JInt 7),
              (''size'', JInt 50), (''pages'', JInt 0)])]"

definition example_library :: library where
  "example_library =
     \<lparr>md5_hexdigest = (\<lambda>s. s),
      float_repr = (\<lambda>x. ''1.5''),
      json_dumps = (\<lambda>v. case find (\<lambda>(s, w). w = v) example_codec of
                          Some (s, w) \<Rightarrow> s
                        | None \<Rightarrow> ''{}''),
      json_loads = map_of example_codec,
      isoformat = int_str,
      glob_match = (\<lambda>pattern key. pattern = ''*'' \<or> pattern = key),
      inherited_attr = (\<lambda>name. name \<in> set [''metadata'', ''registry'']),
      http_exception_str = (\<lambda>status detail. int_str status @ '': '' @ detail)\<rparr>"

text \<open>Rows for evaluating the model on concrete inputs.\<close>

definition example_product :: "int \<Rightarrow> string \<Rightarrow> rat \<Rightarrow> product" where
  "example_product i cat amount =
     \<lparr>p_id = i, p_name = ''Widget'', p_description = None, p_price = amount,
      p_category = cat, p_brand = ''Sony'', p_stock_quantity = 5, p_rating = None,
      p_is_active = True, p_created_at = 0, p_updated_at = 0\<rparr>"

definition example_user :: "int \<Rightarrow> user" where
  "example_user i =
     \<lparr>u_id = i, u_email = ''a@example.com'', u_first_name = ''Ada'', u_last_name = ''Byron'',
      u_phone = None, u_address = None, u_city = ''London'', u_country = ''UK'',
      u_is_active = True, u_created_at = 0, u_updated_at = 0\<rparr>"

definition example_order :: "int \<Rightarrow> int \<Rightarrow> string \<Rightarrow> order" where
  "example_order i uid st =
     \<lparr>o_id = i, o_user_id = uid, o_product_id = 1, o_quantity = 2, o_unit_price = 10,
      o_total_amount = 20, o_status = st, o_order_date = 0\<rparr>"

text \<open>A database with five products, two users and three orders.\<close>

definition example_database :: database where
  "example_database =
     \<lparr>products = [example_product 1 ''Books'' 10, example_product 2 ''Books'' 20,
                  example_product 3 ''Toys'' 30, example_product 4 ''Toys'' 40,
                  example_product 5 ''Sports'' 50],
      users = [example_user 1, example_user 2],
      orders = [example_order 1 1 ''pending'', example_order 2 1 ''processing'',
                example_order 3 2 ''shipped'']\<rparr>"

text \<open>A database whose products and orders are in the order of neither their prices nor their user ids.\<close>

definition example_unordered_database :: database where
  "example_unordered_database =
     \<lparr>products = [example_product 1 ''Books'' 30, example_product 2 ''Books'' 10,
                  example_product 3 ''Toys'' 20],
      users = [example_user 1, example_user 2, example_user 3],
      orders = [example_order 1 2 ''pending'', example_order 2 3 ''shipped'',
                example_order 3 1 ''pending'']\<rparr>"

text \<open>
  Two requests for the product list: the first page of the brand \<^verbatim>\<open>b&page=7&search=s\<close>, and
  the seventh page of the brand \<^verbatim>\<open>b\<close> with the search term \<^verbatim>\<open>s&page=1\<close>.
\<close>

definition example_request_first_page :: ProductQueryParams where
  "example_request_first_page =
     \<lparr>pq_page = 1, pq_size = 50, pq_search = None, pq_category = None,
      pq_brand = Some ''b&page=7&search=s'', pq_min_price = None, pq_max_price = None,
      pq_sort_by = PS_id, pq_sort_order = SO_asc\<rparr>"

definition example_request_seventh_page :: ProductQueryParams where
  "example_request_seventh_page =
     \<lparr>pq_page = 7, pq_size = 50, pq_search = Some ''s&page=1'', pq_category = None,
      pq_brand = Some ''b'', pq_min_price = None, pq_max_price = None,
      pq_sort_by = PS_id, pq_sort_order = SO_asc\<rparr>"


section \<open>The cache key\<close>

lemma present_sorted_eq:
  fixes ps qs :: "(string \<times> 'a option) list"
  assumes "distinct (map fst ps)" "distinct (map fst qs)"
    and "{(k, v). (k, Some v) \<in> set ps} = {(k, v). (k, Some v) \<in> set qs}"
  shows "filter (\<lambda>(k, v). v \<noteq> None) (sort_key fst ps) =
         filter (\<lambda>(k, v). v \<noteq> None) (sort_key fst qs)"
proof -
  let ?P = "\<lambda>(k :: string, v :: 'a option). v \<noteq> None"
  have set_eq: "set (filter ?P ps) = set (filter ?P qs)"
    using assms(3) by (auto simp: set_eq_iff)
  have dps: "distinct (filter ?P ps)" and dqs: "distinct (filter ?P qs)"
    using assms(1,2) by (auto dest: distinct_map[THEN iffD1])
  have "mset (filter ?P ps) = mset (filter ?P qs)"
    using set_eq_iff_mset_eq_distinct[OF dps dqs] set_eq by blast
  moreover have "inj_on fst (set (filter ?P ps))"
    using assms(1) by (auto simp: distinct_map intro: inj_on_subset)
  ultimately have "sort_key fst (filter ?P ps) = sort_key fst (filter ?P qs)"
    by (intro sort_key_inj_key_eq) auto
  then show ?thesis by (simp add: filter_sort)
qed

lemma map_filter_present:
  "List.map_filter (\<lambda>(k, v). case v of None \<Rightarrow> None | Some x \<Rightarrow> Some (g k x)) xs =
   map (\<lambda>(k, v). g k v) (map (\<lambda>(k, v). (k, the v)) (filter (\<lambda>(k, v). v \<noteq> None) xs))"
  by (induction xs) (auto simp: List.map_filter_simps split: option.splits)

lemma encoded_params:
  fixes ps :: params
  assumes "distinct (map fst ps)"
  defines "L \<equiv> map (\<lambda>(k, v). (k, the v)) (filter (\<lambda>(k, v). v \<noteq> None) (sort_key fst ps))"
  shows "set L = present ps" and "sorted (map fst L)" and "distinct (map fst L)"
proof -
  have keys: "map fst L = map fst (filter (\<lambda>(k, v). v \<noteq> None) (sort_key fst ps))"
    by (simp add: L_def case_prod_unfold comp_def)
  show "set L = present ps"
    by (force simp: L_def present_def)
  have "sorted (map fst (sort_key fst ps))" by simp
  then show "sorted (map fst L)"
    unfolding keys by (rule sorted_filter)
  have "distinct (map fst (sort_key fst ps))"
    using assms(1) by (simp add: distinct_map)
  then show "distinct (map fst L)"
    unfolding keys by (rule distinct_map_filter)
qed

text \<open>
  C1, as stated: two parameter dictionaries with the same pairs that are not \<^verbatim>\<open>None\<close> give
  the same key. It fails for pairs that are the same in the sense of Python: the floats
  \<^verbatim>\<open>0.0\<close> and \<^verbatim>\<open>-0.0\<close> are equal, both pass the check \<^verbatim>\<open>ge=0\<close> of \<^verbatim>\<open>min_price\<close>, and
  they are written differently into the string that is hashed.
\<close>

theorem generate_cache_key_equal_floats_counterexample:
  "same_pairs [(''min_price'', Some (SFloat (Finite 0)))] [(''min_price'', Some (SFloat NegZero))]
   \<and> float_ge_opt (Finite 0) (Some (Finite 0)) \<and> float_ge_opt (Finite 0) (Some NegZero)
   \<and> cache_string example_library ''products'' [(''min_price'', Some (SFloat (Finite 0)))]
       = ''products?min_price=0.0''
   \<and> cache_string example_library ''products'' [(''min_price'', Some (SFloat NegZero))]
       = ''products?min_price=-0.0''
   \<and> generate_cache_key example_library ''products'' [(''min_price'', Some (SFloat (Finite 0)))]
       \<noteq> generate_cache_key example_library ''products'' [(''min_price'', Some (SFloat NegZero))]"
  by (simp add: same_pairs_def covers_def float_eq_def float_ge_opt_def float_le_def
        generate_cache_key_def cache_string_def List.map_filter_simps example_library_def)

text \<open>
  C1, amended. The cache key depends only on the endpoint and on the parameters that are
  present, a value being the same only when it is the same integer, string or float (the
  floats \<^verbatim>\<open>0.0\<close> and \<^verbatim>\<open>-0.0\<close> are different values): two keyword dictionaries with the same
  pairs whose value is not \<^verbatim>\<open>None\<close> give the same key, whatever the order of their items
  and whatever parameters they carry with the value \<^verbatim>\<open>None\<close>. The key is the hash of the
  endpoint, a question mark, and the present pairs written \<^verbatim>\<open>key=value\<close>, in ascending
  order of their keys, joined by \<^verbatim>\<open>&\<close>.
\<close>

theorem generate_cache_key_present_params:
  assumes "distinct (map fst ps)" and "distinct (map fst qs)"
    and "present ps = present qs"
  shows "generate_cache_key lib endpoint ps = generate_cache_key lib endpoint qs
       \<and> (\<exists>L. set L = present ps \<and> sorted (map fst L) \<and> distinct (map fst L)
              \<and> generate_cache_key lib endpoint ps =
                  md5_hexdigest lib
                    (endpoint @ ''?'' @
                     join ''&'' (map (\<lambda>(k, v). k @ ''='' @ scalar_str lib v) L)))"
proof -
  have "filter (\<lambda>(k, v). v \<noteq> None) (sort_key fst ps) =
        filter (\<lambda>(k, v). v \<noteq> None) (sort_key fst qs)"
    using assms by (intro present_sorted_eq) (simp_all add: present_def)
  then have same: "generate_cache_key lib endpoint ps = generate_cache_key lib endpoint qs"
    by (simp add: generate_cache_key_def cache_string_def map_filter_present)
  let ?L = "map (\<lambda>(k, v). (k, the v)) (filter (\<lambda>(k, v). v \<noteq> None) (sort_key fst ps))"
  have "generate_cache_key lib endpoint ps =
        md5_hexdigest lib
          (endpoint @ ''?'' @ join ''&'' (map (\<lambda>(k, v). k @ ''='' @ scalar_str lib v) ?L))"
    by (simp add: generate_cache_key_def cache_string_def map_filter_present)
  with encoded_params[OF assms(1)] same show ?thesis by blast
qed

theorem generate_cache_key_present_params_witness:
  "\<forall>lib.
     distinct (map fst [(''size'', Some (SInt 10)), (''search'', None),
                        (''min_price'', Some (SFloat NegZero)), (''page'', Some (SInt 2))])
   \<and> distinct (map fst [(''page'', Some (SInt 2)), (''min_price'', Some (SFloat NegZero)),
                        (''size'', Some (SInt 10))])
   \<and> present [(''size'', Some (SInt 10)), (''search'', None),
               (''min_price'', Some (SFloat NegZero)), (''page'', Some (SInt 2))]
       = present [(''page'', Some (SInt 2)), (''min_price'', Some (SFloat NegZero)),
                  (''size'', Some (SInt 10))]
   \<and> generate_cache_key lib ''products''
         [(''size'', Some (SInt 10)), (''search'', None),
          (''min_price'', Some (SFloat NegZero)), (''page'', Some (SInt 2))]
       = generate_cache_key lib ''products''
           [(''page'', Some (SInt 2)), (''min_price'', Some (SFloat NegZero)),
            (''size'', Some (SInt 10))]
   \<and> generate_cache_key lib ''products''
         [(''page'', Some (SInt 2)), (''min_price'', Some (SFloat NegZero)),
          (''size'', Some (SInt 10))]
       = md5_hexdigest lib ''products?min_price=-0.0&page=2&size=10''"
proof (intro allI)
  fix lib
  let ?ps = "[(''size'', Some (SInt 10)), (''search'', None),
              (''min_price'', Some (SFloat NegZero)), (''page'', Some (SInt 2))]"
  let ?qs = "[(''page'', Some (SInt 2)), (''min_price'', Some (SFloat NegZero)),
              (''size'', Some (SInt 10))]"
  have d1: "distinct (map fst ?ps)" by simp
  have d2: "distinct (map fst ?qs)" by simp
  have e: "present ?ps = present ?qs" by (auto simp: present_def)
  have k: "generate_cache_key lib ''products'' ?qs =
           md5_hexdigest lib ''products?min_price=-0.0&page=2&size=10''"
  proof -
    have "int_str 2 = ''2''" and "int_str 10 = ''10''" by code_simp+
    then show ?thesis
      by (simp add: generate_cache_key_def cache_string_def List.map_filter_simps)
  qed
  from generate_cache_key_present_params[OF d1 d2 e, of lib "''products''"] d1 d2 e k
  show "distinct (map fst ?ps) \<and> distinct (map fst ?qs) \<and> present ?ps = present ?qs
    \<and> generate_cache_key lib ''products'' ?ps = generate_cache_key lib ''products'' ?qs
    \<and> generate_cache_key lib ''products'' ?qs
        = md5_hexdigest lib ''products?min_price=-0.0&page=2&size=10''"
    by blast
qed


section \<open>The order status\<close>

text \<open>
  C7. The status filter of the order list accepts exactly the values of \<^verbatim>\<open>OrderStatus\<close>:
  pending, confirmed, shipped, delivered and cancelled. The orders that \<^verbatim>\<open>seed_orders\<close>
  creates have one of pending, processing, shipped, delivered and cancelled. So the filter
  rejects the status \<^verbatim>\<open>processing\<close>, which orders have, and accepts \<^verbatim>\<open>confirmed\<close>,
  which no order has.
\<close>

theorem order_status_filter_rejects_processing:
  "''processing'' \<in> set statuses
   \<and> OrderStatus_validate ''processing'' = None
   \<and> OrderStatus_validate ''confirmed'' = Some confirmed
   \<and> ''confirmed'' \<notin> set statuses
   \<and> map OrderStatus_value OrderStatus_members
       = [''pending'', ''confirmed'', ''shipped'', ''delivered'', ''cancelled'']"
  by (simp add: statuses_def OrderStatus_validate_def OrderStatus_members_def)


section \<open>The cache manager\<close>

text \<open>
  C8, as stated: deleting a key that is not in the store returns success. It fails: on a
  reachable, empty store \<^verbatim>\<open>delete\<close> returns \<^verbatim>\<open>False\<close>, the value it also returns when
  the backend raises.
\<close>

theorem cache_delete_absent_key_counterexample:
  "\<not> live \<lparr>available = True, entries = []\<rparr> 0 ''k''
   \<and> fst (cache_delete \<lparr>available = True, entries = []\<rparr> 0 ''k'') = False"
  by (simp add: live_def cache_delete_def redis_delete_def)

text \<open>
  C8, amended. \<^verbatim>\<open>delete(key)\<close> raises nothing and returns \<^verbatim>\<open>True\<close> exactly when the
  backend is reachable and an entry of the key was there to remove; for a key that is not
  in the store it returns \<^verbatim>\<open>False\<close>.
\<close>

theorem cache_delete_true_iff_removed:
  "fst (cache_delete r now key) = (available r \<and> live r now key)"
  by (simp add: cache_delete_def redis_delete_def)

theorem cache_delete_true_iff_removed_witness:
  "fst (cache_delete \<lparr>available = True, entries = [(''k'', ''42'', 10)]\<rparr> 0 ''k'') = True
   \<and> fst (cache_delete \<lparr>available = True, entries = [(''k'', ''42'', 10)]\<rparr> 0 ''j'') = False
   \<and> fst (cache_delete \<lparr>available = False, entries = [(''k'', ''42'', 10)]\<rparr> 0 ''k'') = False"
  using cache_delete_true_iff_removed[of "\<lparr>available = True, entries = [(''k'', ''42'', 10)]\<rparr>" 0 "''k''"]
    cache_delete_true_iff_removed[of "\<lparr>available = True, entries = [(''k'', ''42'', 10)]\<rparr>" 0 "''j''"]
    cache_delete_true_iff_removed[of "\<lparr>available = False, entries = [(''k'', ''42'', 10)]\<rparr>" 0 "''k''"]
  by (simp add: live_def)

lemma cache_set_some:
  assumes "available r" and "0 < ttl" and "1000 * (int now + ttl) \<le> max_bigint"
  shows "cache_set lib r now k v (Some ttl) =
         (True, r\<lparr>entries := (k, json_dumps lib v, now + nat ttl) # filter (\<lambda>e. fst e \<noteq> k) (entries r)\<rparr>)"
  using assms by (simp add: cache_set_def redis_setex_def Let_def)

lemma cache_get_after_set:
  assumes "available r" and "0 < ttl" and "1000 * (int now + ttl) \<le> max_bigint"
  shows "cache_get lib (snd (cache_set lib r now k v (Some ttl))) t k =
         (if t < now + nat ttl \<and> json_dumps lib v \<noteq> []
          then (case json_loads lib (json_dumps lib v) of None \<Rightarrow> JNull | Some w \<Rightarrow> w)
          else JNull)"
  using assms by (simp add: cache_set_some cache_get_def redis_get_def)

lemma cache_get_malformed:
  "redis_get c t key = Inr (Some s) \<Longrightarrow> json_loads lib s = None \<Longrightarrow> cache_get lib c t key = JNull"
  by (simp add: cache_get_def)

text \<open>
  C4, as stated: after \<^verbatim>\<open>set(k, v, ttl)\<close> of any value that JSON can carry, \<^verbatim>\<open>get(k)\<close>
  returns it and does not report a miss. It fails for \<^verbatim>\<open>None\<close>: the set succeeds, the store
  holds the well-formed text \<^verbatim>\<open>null\<close>, and \<^verbatim>\<open>get\<close> returns \<^verbatim>\<open>None\<close>, exactly what it
  returns on the empty store.
\<close>

theorem cache_set_null_reported_as_miss_counterexample:
  "fst (cache_set example_library \<lparr>available = True, entries = []\<rparr> 0 ''k'' JNull (Some 60)) = True
   \<and> redis_get (snd (cache_set example_library \<lparr>available = True, entries = []\<rparr> 0 ''k'' JNull (Some 60))) 0 ''k''
       = Inr (Some ''null'')
   \<and> json_loads example_library ''null'' = Some JNull
   \<and> cache_get example_library
        (snd (cache_set example_library \<lparr>available = True, entries = []\<rparr> 0 ''k'' JNull (Some 60))) 0 ''k''
       = cache_get example_library \<lparr>available = True, entries = []\<rparr> 0 ''k''"
  by (simp add: cache_set_def redis_setex_def cache_get_def redis_get_def example_library_def
        example_codec_def max_bigint_def)

text \<open>
  C4, amended. On a reachable backend, for every key, every positive ttl whose expiry
  time in milliseconds fits a signed 64-bit integer (Redis refuses a larger one) and every
  value other than \<^verbatim>\<open>None\<close> that the JSON codec carries through unchanged: the set succeeds; from
  then until the ttl has elapsed \<^verbatim>\<open>get\<close> returns the value, which is not the miss value;
  once the ttl has elapsed \<^verbatim>\<open>get\<close> is a miss. In any store, a stored text that
  \<^verbatim>\<open>json.loads\<close> rejects is a miss.
\<close>

theorem cache_set_get_roundtrip:
  assumes "available r" and "0 < ttl" and "1000 * (int now + ttl) \<le> max_bigint"
    and "v \<noteq> JNull"
    and "json_dumps lib v \<noteq> []" and "json_loads lib (json_dumps lib v) = Some v"
  shows "fst (cache_set lib r now k v (Some ttl))
       \<and> (\<forall>t. now \<le> t \<and> t < now + nat ttl \<longrightarrow>
             cache_get lib (snd (cache_set lib r now k v (Some ttl))) t k = v
           \<and> cache_get lib (snd (cache_set lib r now k v (Some ttl))) t k \<noteq> JNull)
       \<and> (\<forall>t. now + nat ttl \<le> t \<longrightarrow>
             cache_get lib (snd (cache_set lib r now k v (Some ttl))) t k = JNull)
       \<and> (\<forall>c t key s. redis_get c t key = Inr (Some s) \<and> json_loads lib s = None \<longrightarrow>
             cache_get lib c t key = JNull)"
proof -
  have ok: "fst (cache_set lib r now k v (Some ttl))"
    using assms(1,2,3) by (simp add: cache_set_some)
  have get: "cache_get lib (snd (cache_set lib r now k v (Some ttl))) t k =
             (if t < now + nat ttl then v else JNull)" for t
    using assms by (simp add: cache_get_after_set)
  show ?thesis
    using ok assms(4) by (simp add: get cache_get_malformed)
qed

theorem cache_set_get_roundtrip_witness:
  "fst (cache_set example_library \<lparr>available = True, entries = []\<rparr> 100 ''k'' (JInt 42) (Some 60))
   \<and> cache_get example_library
        (snd (cache_set example_library \<lparr>available = True, entries = []\<rparr> 100 ''k'' (JInt 42) (Some 60)))
        100 ''k'' = JInt 42
   \<and> cache_get example_library
        (snd (cache_set example_library \<lparr>available = True, entries = []\<rparr> 100 ''k'' (JInt 42) (Some 60)))
        159 ''k'' = JInt 42
   \<and> cache_get example_library
        (snd (cache_set example_library \<lparr>available = True, entries = []\<rparr> 100 ''k'' (JInt 42) (Some 60)))
        160 ''k'' = JNull
   \<and> cache_get example_library \<lparr>available = True, entries = [(''k'', ''{oops'', 10)]\<rparr> 0 ''k'' = JNull"
proof -
  let ?r = "\<lparr>available = True, entries = []\<rparr>"
  have a: "available ?r" and b: "(0::int) < 60" and c: "JInt 42 \<noteq> JNull" by simp_all
  have m: "1000 * (int 100 + 60) \<le> max_bigint" by (simp add: max_bigint_def)
  have d: "json_dumps example_library (JInt 42) \<noteq> []"
    and e: "json_loads example_library (json_dumps example_library (JInt 42)) = Some (JInt 42)"
    by (simp_all add: example_library_def example_codec_def)
  have g: "redis_get \<lparr>available = True, entries = [(''k'', ''{oops'', 10)]\<rparr> 0 ''k'' = Inr (Some ''{oops'')"
    and h: "json_loads example_library ''{oops'' = None"
    by (simp_all add: redis_get_def example_library_def example_codec_def)
  from cache_set_get_roundtrip[OF a b m c d e, of "''k''"] g h show ?thesis
    by simp
qed



section \<open>Truncating all data\<close>

lemma truncate_all_data_ok:
  assumes "\<forall>i<7. fault i = None"
  shows "truncate_all_data fault db =
         (\<lparr>success = True, message = ''All data truncated successfully'',
           counts = \<lparr>orders_deleted = int (length (orders (working db))),
                      users_deleted = int (length (users (working db))),
                      products_deleted = int (length (products (working db)))\<rparr>\<rparr>,
          \<lparr>committed = (working db)\<lparr>orders := [], users := [], products := []\<rparr>,
           working = (working db)\<lparr>orders := [], users := [], products := []\<rparr>\<rparr>)"
proof -
  have "fault 0 = None" "fault 1 = None" "fault 2 = None" "fault 3 = None"
       "fault 4 = None" "fault 5 = None" "fault 6 = None"
    using assms by simp_all
  then show ?thesis
    by (simp add: truncate_all_data_def storage_op_def and_then_def)
qed


lemma truncate_endpoint_ok:
  assumes "\<forall>i<7. fault i = None"
  shows "truncate_all_data_endpoint lib fault cache now db =
         (Inr (JDict [(''message'', JStr ''All data truncated successfully''),
                      (''deleted_counts'',
                         JDict [(''orders'', JInt (int (length (orders (working db))))),
                                (''users'', JInt (int (length (users (working db))))),
                                (''products'', JInt (int (length (products (working db)))))]),
                      (''cache_cleared'', JBool True)]),
          snd (clear_pattern lib cache now ''*''),
          \<lparr>committed = (working db)\<lparr>orders := [], users := [], products := []\<rparr>,
           working = (working db)\<lparr>orders := [], users := [], products := []\<rparr>\<rparr>)"
  by (simp add: truncate_all_data_endpoint_def truncate_all_data_ok[OF assms] split: prod.splits)




text \<open>
  C9, as stated: \<^verbatim>\<open>cache_cleared\<close> is true if and only if the clearing of the cache
  succeeded. It fails: with the cache backend unreachable, the KEYS call of
  \<^verbatim>\<open>clear_pattern\<close> raises, the cache keeps its entry, and the response still says
  \<^verbatim>\<open>cache_cleared: true\<close>.
\<close>

theorem cache_cleared_when_clear_failed_counterexample:
  "redis_keys example_library \<lparr>available = False, entries = [(''stats'', ''{}'', 60)]\<rparr> 0 ''*''
     = Inl ConnectionError
   \<and> fst (truncate_all_data_endpoint example_library (\<lambda>i. None)
            \<lparr>available = False, entries = [(''stats'', ''{}'', 60)]\<rparr> 0
            \<lparr>committed = example_database, working = example_database\<rparr>) =
     Inr (JDict [(''message'', JStr ''All data truncated successfully''),
                 (''deleted_counts'',
                    JDict [(''orders'', JInt 3), (''users'', JInt 2), (''products'', JInt 5)]),
                 (''cache_cleared'', JBool True)])
   \<and> fst (snd (truncate_all_data_endpoint example_library (\<lambda>i. None)
            \<lparr>available = False, entries = [(''stats'', ''{}'', 60)]\<rparr> 0
            \<lparr>committed = example_database, working = example_database\<rparr>)) =
     \<lparr>available = False, entries = [(''stats'', ''{}'', 60)]\<rparr>"
  by (simp add: truncate_endpoint_ok redis_keys_def clear_pattern_def example_database_def)

text \<open>
  C9, amended. The truncate-all endpoint returns a response exactly when the truncation
  succeeded, and in every response \<^verbatim>\<open>cache_cleared\<close> is true, whatever the outcome of
  \<^verbatim>\<open>clear_pattern\<close>.
\<close>

theorem cache_cleared_always_true:
  "(case fst (truncate_all_data_endpoint lib fault cache now db) of
      Inr response \<Rightarrow>
        success (fst (truncate_all_data fault db))
        \<and> field ''cache_cleared'' response = Some (JBool True)
    | Inl e \<Rightarrow> \<not> success (fst (truncate_all_data fault db)))"
  by (simp add: truncate_all_data_endpoint_def split: prod.splits)

theorem cache_cleared_always_true_witness:
  "field ''cache_cleared''
     (projr (fst (truncate_all_data_endpoint example_library (\<lambda>i. None)
            \<lparr>available = False, entries = [(''stats'', ''{}'', 60)]\<rparr> 0
            \<lparr>committed = example_database, working = example_database\<rparr>))) = Some (JBool True)
   \<and> field ''cache_cleared''
     (projr (fst (truncate_all_data_endpoint example_library (\<lambda>i. None)
            \<lparr>available = True, entries = [(''stats'', ''{}'', 60)]\<rparr> 0
            \<lparr>committed = example_database, working = example_database\<rparr>))) = Some (JBool True)"
proof -
  let ?db = "\<lparr>committed = example_database, working = example_database\<rparr>"
  have ok: "\<forall>i<7. (\<lambda>i::nat. None :: string option) i = None" by simp
  from cache_cleared_always_true[where lib = example_library and fault = "\<lambda>i. None"
         and cache = "\<lparr>available = False, entries = [(''stats'', ''{}'', 60)]\<rparr>"
         and now = 0 and db = ?db]
       cache_cleared_always_true[where lib = example_library and fault = "\<lambda>i. None"
         and cache = "\<lparr>available = True, entries = [(''stats'', ''{}'', 60)]\<rparr>"
         and now = 0 and db = ?db]
  show ?thesis
    by (simp add: truncate_endpoint_ok[OF ok])
qed


section \<open>The list queries\<close>

lemma sorted_page_Inr:
  assumes "0 \<le> skip" and "skip \<le> max_bigint" and "0 < limit" and "limit \<le> max_bigint"
  shows "sorted_page order (Column c) sort_order skip limit query n =
         Inr \<lparr>r_items = take (nat limit) (drop (nat skip) (order c (requested_direction sort_order) query)),
              r_total = n, r_page = skip div limit + 1, r_size = limit,
              r_pages = \<lceil>rat_of_int n / rat_of_int limit\<rceil>\<rparr>"
  using assms by (simp add: sorted_page_def requested_direction_def Let_def)

lemma sql_and_filter: "(if fs \<noteq> [] then filter (sql_and fs) q else q) = filter (sql_and fs) q"
  by (simp add: sql_and_def)

lemma like_match_percent: "like_match ''%'' x"
  by (induction x) simp_all

lemma like_match_prefix:
  assumes "CHR ''%'' \<notin> set s" and "CHR ''_'' \<notin> set s" and "CHR 0x5C \<notin> set s"
  shows "like_match (s @ ''%'') x = prefix s x"
  using assms
proof (induction s arbitrary: x)
  case Nil
  then show ?case by (simp add: like_match_percent del: like_match.simps)
next
  case (Cons c s)
  then show ?case by (cases x) auto
qed

lemma like_match_any:
  "like_match (CHR ''%'' # p) x = (\<exists>pre post. x = pre @ post \<and> like_match p post)"
proof (induction x)
  case Nil
  then show ?case by simp
next
  case (Cons c cs)
  show ?case
  proof
    assume "like_match (CHR ''%'' # p) (c # cs)"
    then consider "like_match p (c # cs)" | "like_match (CHR ''%'' # p) cs" by auto
    then show "\<exists>pre post. c # cs = pre @ post \<and> like_match p post"
    proof cases
      case 1
      then show ?thesis by (intro exI[of _ "[]"] exI[of _ "c # cs"]) simp
    next
      case 2
      with Cons.IH obtain pre post where "cs = pre @ post" "like_match p post" by blast
      then show ?thesis by (intro exI[of _ "c # pre"] exI[of _ post]) simp
    qed
  next
    assume "\<exists>pre post. c # cs = pre @ post \<and> like_match p post"
    then obtain pre post where e: "c # cs = pre @ post" and m: "like_match p post" by blast
    show "like_match (CHR ''%'' # p) (c # cs)"
    proof (cases pre)
      case Nil
      with e m show ?thesis by simp
    next
      case (Cons d pre')
      with e have "cs = pre' @ post" by simp
      with m Cons.IH have "like_match (CHR ''%'' # p) cs" by blast
      then show ?thesis by simp
    qed
  qed
qed

lemma like_match_contains:
  assumes "CHR ''%'' \<notin> set s" and "CHR ''_'' \<notin> set s" and "CHR 0x5C \<notin> set s"
  shows "like_match (''%'' @ s @ ''%'') x = sublist s x"
proof -
  have "like_match (''%'' @ s @ ''%'') x = (\<exists>pre post. x = pre @ post \<and> prefix s post)"
    using like_match_any[of "s @ ''%''" x] like_match_prefix[OF assms] by simp
  also have "\<dots> = sublist s x"
    by (auto simp: sublist_def prefix_def) 
  finally show ?thesis .
qed

lemma lower_char_special:
  assumes "lower_char c = CHR ''%'' \<or> lower_char c = CHR ''_'' \<or> lower_char c = CHR 0x5C"
  shows "lower_char c = c"
proof (cases "CHR ''A'' \<le> c \<and> c \<le> CHR ''Z''")
  case True
  then have b: "(65::nat) \<le> of_char c" "of_char c \<le> (90::nat)"
    by (simp_all add: less_eq_char_def)
  have "lower_char c = char_of (of_char c + (32::nat))"
    using True by (simp add: lower_char_def)
  then have "of_char (lower_char c) = (of_char c + (32::nat)) mod 256"
    by (simp only: of_char_of)
  with b have v: "of_char (lower_char c) = of_char c + (32::nat)" by simp
  have "of_char (lower_char c) = (37::nat) \<or> of_char (lower_char c) = (95::nat)
        \<or> of_char (lower_char c) = (92::nat)"
    using assms by auto
  with v b show ?thesis by arith
next
  case False
  then show ?thesis by (auto simp: lower_char_def)
qed

lemma special_lower:
  assumes "c \<in> set (lower s)" and "c = CHR ''%'' \<or> c = CHR ''_'' \<or> c = CHR 0x5C"
  shows "c \<in> set s"
proof -
  from assms(1) obtain x where x: "x \<in> set s" and c: "c = lower_char x"
    by (auto simp: lower_def)
  from assms(2) c have "lower_char x = x" by (intro lower_char_special) simp
  with x c show ?thesis by simp
qed

lemma plain_lower:
  assumes "CHR ''%'' \<notin> set s" and "CHR ''_'' \<notin> set s" and "CHR 0x5C \<notin> set s"
  shows "CHR ''%'' \<notin> set (lower s)" and "CHR ''_'' \<notin> set (lower s)"
    and "CHR 0x5C \<notin> set (lower s)"
  using assms special_lower by blast+

lemma lower_percent: "lower (''%'' @ s @ ''%'') = ''%'' @ lower s @ ''%''"
proof -
  have "lower_char CHR ''%'' = CHR ''%''" by code_simp
  then show ?thesis by (simp add: lower_def)
qed

lemma ilike_contains:
  assumes "CHR ''%'' \<notin> set s" and "CHR ''_'' \<notin> set s" and "CHR 0x5C \<notin> set s"
  shows "ilike (''%'' @ s @ ''%'') x = icontains s x"
  unfolding ilike_def icontains_def lower_percent
  by (rule like_match_contains[OF plain_lower[OF assms]])

lemma ilike_null_contains:
  assumes "CHR ''%'' \<notin> set s" and "CHR ''_'' \<notin> set s" and "CHR 0x5C \<notin> set s"
  shows "ilike_null (''%'' @ s @ ''%'') v = icontains_null s v"
  using ilike_contains[OF assms]
  by (cases v) (simp_all add: ilike_null_def icontains_null_def)

lemma sql_ge_float_le: "sql_ge x lo = float_le lo (Finite x)"
  by (cases lo) (simp_all add: sql_ge_def float_le_def)

lemma sql_le_float_le: "hi \<noteq> NaN \<Longrightarrow> sql_le x hi = float_le (Finite x) hi"
  by (cases hi) (simp_all add: sql_le_def float_le_def)

lemma product_filters_satisfies:
  assumes "plain search" and "max_price \<noteq> Some NaN"
  shows "sql_and (product_filters search category brand min_price max_price)
         = product_satisfies (nonempty search) (nonempty category) (nonempty brand)
             min_price max_price"
proof -
  have s: "ilike (CHR ''%'' # t @ ''%'') x = icontains t x"
    "ilike_null (CHR ''%'' # t @ ''%'') v = icontains_null t v" if "search = Some t" for t x v
  proof -
    from assms(1) that have p: "CHR ''%'' \<notin> set t" "CHR ''_'' \<notin> set t" "CHR 0x5C \<notin> set t"
      by (simp_all add: plain_def)
    show "ilike (CHR ''%'' # t @ ''%'') x = icontains t x"
      using ilike_contains[OF p, of x] by simp
    show "ilike_null (CHR ''%'' # t @ ''%'') v = icontains_null t v"
      using ilike_null_contains[OF p, of v] by simp
  qed
  have hi: "sql_le x h = float_le (Finite x) h" if "max_price = Some h" for x h
    using assms(2) that by (simp add: sql_le_float_le)
  show ?thesis
    by (cases search; cases category; cases brand; cases min_price; cases max_price)
       (auto simp: sql_and_def product_filters_def product_satisfies_def fun_eq_iff s hi
          sql_ge_float_le)
qed

lemma order_filters_satisfies:
  "sql_and (order_filters user_id status) = order_satisfies (nonzero user_id) (nonempty status)"
  by (cases user_id; cases status)
     (auto simp: sql_and_def order_filters_def order_satisfies_def fun_eq_iff)

lemma get_products_crud_eq:
  "get_products_crud lib db skip limit search category brand min_price max_price sort_by sort_order =
   sorted_page order_products (getattr (Product_attr lib) sort_by (Column PId)) sort_order skip limit
     (filter (sql_and (product_filters search category brand min_price max_price)) (products db))
     (int (length (filter (sql_and (product_filters search category brand min_price max_price))
                     (products db))))"
  unfolding get_products_crud_def Let_def sql_and_filter by (rule refl)

lemma get_users_crud_eq:
  "get_users_crud lib db skip limit search city country sort_by sort_order =
   sorted_page order_users (getattr (User_attr lib) sort_by (Column UId)) sort_order skip limit
     (filter (sql_and (user_filters search city country)) (users db))
     (int (length (filter (sql_and (user_filters search city country)) (users db))))"
  unfolding get_users_crud_def Let_def sql_and_filter by (rule refl)

lemma get_orders_crud_eq:
  "get_orders_crud lib db skip limit user_id status sort_by sort_order =
   sorted_page order_orders (getattr (Order_attr lib) sort_by (Column OId)) sort_order skip limit
     (filter (sql_and (order_filters user_id status)) (orders db))
     (int (length (filter (sql_and (order_filters user_id status)) (orders db))))"
  unfolding get_orders_crud_def Let_def sql_and_filter by (rule refl)

lemma Product_sort_field:
  "getattr (Product_attr lib) (ProductSortFields_value f) (Column PId) =
   Column (ProductSortFields_column f)"
  by (cases f) (simp_all add: getattr_def Product_attr_def class_attr_def Product_columns_def)

lemma User_sort_field:
  "\<exists>c. getattr (User_attr lib) (UserSortFields_value f) (Column UId) = Column c"
  by (cases f) (simp_all add: getattr_def User_attr_def class_attr_def User_columns_def)

lemma Order_sort_field:
  "getattr (Order_attr lib) (OrderSortFields_value f) (Column OId) =
   Column (OrderSortFields_column f)"
  by (cases f) (simp_all add: getattr_def Order_attr_def class_attr_def Order_columns_def)

lemma getattr_unknown: "cls name = None \<Longrightarrow> getattr cls name dflt = dflt"
  by (simp add: getattr_def)

lemma getattr_sortable:
  "sortable cls name \<Longrightarrow> \<exists>c. getattr cls name (Column d) = Column c"
  by (auto simp: sortable_def getattr_def split: option.splits attribute.splits)

lemma set_order_by: "set (order_by key d rows) = set rows"
  by (cases d) (simp_all add: order_by_def)

lemma set_order_products: "set (order_products c d rows) = set rows"
  by (cases c) (simp_all add: set_order_by)

lemma mset_order_by: "mset (order_by key d rows) = mset rows"
  by (cases d) (simp_all add: order_by_def)

lemma mset_order_products: "mset (order_products c d rows) = mset rows"
  by (cases c) (simp_all add: mset_order_by)

lemma mset_order_orders: "mset (order_orders c d rows) = mset rows"
  by (cases c) (simp_all add: mset_order_by)

lemma order_by_in_direction:
  assumes "\<And>a b. le a b = (key a \<le> key b)"
  shows "in_direction d le (order_by key d rows)"
proof -
  have le: "le = (\<lambda>a b. key a \<le> key b)"
    using assms by (intro ext) simp
  have "sorted_wrt (\<lambda>a b. key a \<le> key b) (sort_key key rows)"
    using sorted_sort_key[of key rows] by (simp only: sorted_map)
  then show ?thesis
    by (cases d) (simp_all add: in_direction_def order_by_def le sorted_wrt_rev)
qed

lemma le_null_nulls_last: "le_null a b = (nulls_last a \<le> nulls_last b)"
  by (cases a; cases b) (auto simp: nulls_last_def less_eq_prod_def)

lemma order_products_in_direction:
  "in_direction d (product_le f) (order_products (ProductSortFields_column f) d rows)"
  by (cases f) (simp_all add: order_by_in_direction le_null_nulls_last)

lemma order_orders_in_direction:
  "in_direction d (order_le f) (order_orders (OrderSortFields_column f) d rows)"
  by (cases f) (simp_all add: order_by_in_direction)

lemma length_order_by: "length (order_by key d rows) = length rows"
  using mset_order_by[of key d rows] by (metis size_mset)

text \<open>
  C3, as stated: for every filter set the total is the number of rows that satisfy it. It
  fails for the filter set whose category is the empty string: \<^verbatim>\<open>if category:\<close> skips the
  filter, the total counts all five products, and no product has the empty category.
\<close>

theorem get_products_empty_category_counterexample:
  "map_sum id r_total
     (get_products_crud example_library example_database 0 10 None (Some '''') None None None
        ''id'' ''asc'') = Inr 5
   \<and> int (length (filter (product_satisfies None (Some '''') None None None)
                    (products example_database))) = 0"
proof -
  have c: "Product_attr example_library ''id'' = Some (Column PId)"
    by (simp add: Product_attr_def class_attr_def Product_columns_def)
  show ?thesis
    by (simp add: get_products_crud_eq getattr_def c sorted_page_Inr max_bigint_def
          product_filters_def sql_and_def product_satisfies_def
          example_database_def example_product_def)
qed

text \<open>
  C3, amended. For every filter set, an empty search, category or brand string counting as
  not given, whose search term has none of the pattern characters \<^verbatim>\<open>%\<close>, \<^verbatim>\<open>_\<close> and
  backslash and whose upper price bound is a number; for every skip and limit that the
  engine accepts (a skip from 0, a limit from 1, both within the signed 64-bit integers)
  and every sort field that is a column or no attribute at all: the list operation returns,
  its total is the number of rows of the whole table that satisfy the filter set, whatever
  the skip and the limit, and every returned item is a row of the table that satisfies it.
\<close>

theorem get_products_total_and_items:
  assumes "0 \<le> skip" and "skip \<le> max_bigint" and "0 < limit" and "limit \<le> max_bigint"
    and "sortable (Product_attr lib) sort_by"
    and "plain search" and "max_price \<noteq> Some NaN"
  shows "\<exists>r. get_products_crud lib db skip limit search category brand min_price max_price
                sort_by sort_order = Inr r
           \<and> r_total r =
               int (length (filter (product_satisfies (nonempty search) (nonempty category)
                                      (nonempty brand) min_price max_price) (products db)))
           \<and> (\<forall>p \<in> set (r_items r).
                 p \<in> set (products db)
                 \<and> product_satisfies (nonempty search) (nonempty category) (nonempty brand)
                      min_price max_price p)"
proof -
  obtain c where c: "getattr (Product_attr lib) sort_by (Column PId) = Column c"
    using getattr_sortable[OF assms(5)] by blast
  show ?thesis
    unfolding get_products_crud_eq c sorted_page_Inr[OF assms(1-4)]
      product_filters_satisfies[OF assms(6,7)]
    by (auto dest!: in_set_takeD in_set_dropD simp: set_order_products)
qed

theorem get_products_total_and_items_witness:
  "map_sum id r_total
     (get_products_crud example_library example_database 0 2 (Some ''WID'') (Some ''Books'') None
        (Some (Finite 15)) None ''price'' ''desc'') = Inr 1
   \<and> map_sum id (map p_id \<circ> r_items)
     (get_products_crud example_library example_database 0 2 (Some ''WID'') (Some ''Books'') None
        (Some (Finite 15)) None ''price'' ''desc'') = Inr [2]
   \<and> map p_id (filter (product_satisfies (Some ''WID'') (Some ''Books'') None (Some (Finite 15)) None)
                   (products example_database)) = [2]"
proof -
  have c: "Product_attr example_library ''price'' = Some (Column PPrice)"
    by (simp add: Product_attr_def class_attr_def Product_columns_def)
  have w: "icontains ''WID'' ''Widget''" by code_simp
  have sat: "filter (product_satisfies (Some ''WID'') (Some ''Books'') None (Some (Finite 15)) None)
               (products example_database) = [example_product 2 ''Books'' 20]"
    by (simp add: product_satisfies_def example_database_def example_product_def w float_le_def)
  have b: "(0::int) \<le> 0" "(0::int) \<le> max_bigint" "(0::int) < 2" "(2::int) \<le> max_bigint"
    by (simp_all add: max_bigint_def)
  have s: "sortable (Product_attr example_library) ''price''"
    by (simp add: sortable_def c)
  have p: "plain (Some ''WID'')" by (simp add: plain_def)
  have n: "(None :: pyfloat option) \<noteq> Some NaN" by simp
  from get_products_total_and_items[OF b s p n, of example_database "Some ''Books''" None
      "Some (Finite 15)" "''desc''"]
  obtain r where r: "get_products_crud example_library example_database 0 2 (Some ''WID'')
        (Some ''Books'') None (Some (Finite 15)) None ''price'' ''desc'' = Inr r"
    and t: "r_total r = int (length (filter (product_satisfies (Some ''WID'') (Some ''Books'')
               None (Some (Finite 15)) None) (products example_database)))"
    and i: "\<forall>p \<in> set (r_items r). p \<in> set (filter (product_satisfies (Some ''WID'')
               (Some ''Books'') None (Some (Finite 15)) None) (products example_database))"
    by auto
  have "length (r_items r) = 1"
    using r get_products_crud_eq[of example_library example_database 0 2 "Some ''WID''"
        "Some ''Books''" None "Some (Finite 15)" None "''price''" "''desc''"]
      product_filters_satisfies[OF p n, of "Some ''Books''" None "Some (Finite 15)"]
    by (auto simp: getattr_def c sorted_page_Inr[OF b] sat length_order_by)
  with i have "r_items r = [example_product 2 ''Books'' 20]"
    by (cases "r_items r") (auto simp: sat)
  with r t show ?thesis
    by (simp add: sat example_product_def)
qed

text \<open>
  C6, as stated: a sort field outside the allow-list makes the list sort by id ascending,
  whatever the requested sort order. It fails: for the unknown field \<^verbatim>\<open>bogus\<close> and the sort
  order \<^verbatim>\<open>desc\<close> the products come by id descending.
\<close>

theorem get_products_unknown_sort_desc_counterexample:
  "Product_attr example_library ''bogus'' = None
   \<and> map_sum id (map p_id \<circ> r_items)
       (get_products_crud example_library example_database 0 10 None None None None None
          ''bogus'' ''desc'') = Inr [5, 4, 3, 2, 1]"
proof -
  have c: "Product_attr example_library ''bogus'' = None"
    by (simp add: Product_attr_def class_attr_def Product_columns_def example_library_def)
  have d: "requested_direction ''desc'' = Desc"
    by (simp add: requested_direction_def) code_simp
  show ?thesis
    by (simp add: c get_products_crud_eq getattr_def sorted_page_Inr max_bigint_def d
          product_filters_def sql_and_def order_by_def example_database_def example_product_def)
qed

text \<open>
  C6, amended. With a skip and a limit that the engine accepts (a skip from 0, a limit from 1,
  both within the signed 64-bit integers), the list operations on products and on orders do
  not fail for a sort field that names no attribute of the mapped class, and their items are
  the requested slice of an arrangement of the filtered rows that is ordered by id in the
  requested direction: descending when the sort order is \<^verbatim>\<open>desc\<close> in any letter case,
  ascending otherwise. For every field of the allow-list they do not fail either, and the
  arrangement is ordered by the values of that field, in the requested direction.
\<close>

theorem sort_field_and_direction:
  assumes "0 \<le> skip" and "skip \<le> max_bigint" and "0 < limit" and "limit \<le> max_bigint"
  shows "(Product_attr lib sort_by = None \<longrightarrow>
            (\<exists>r arranged.
               get_products_crud lib db skip limit search category brand min_price max_price
                 sort_by sort_order = Inr r
               \<and> mset arranged =
                   mset (filter (sql_and (product_filters search category brand min_price
                                            max_price)) (products db))
               \<and> in_direction (requested_direction sort_order) (product_le PS_id) arranged
               \<and> r_items r = take (nat limit) (drop (nat skip) arranged)))
       \<and> (\<exists>r arranged.
             get_products_crud lib db skip limit search category brand min_price max_price
               (ProductSortFields_value pf) sort_order = Inr r
             \<and> mset arranged =
                 mset (filter (sql_and (product_filters search category brand min_price
                                          max_price)) (products db))
             \<and> in_direction (requested_direction sort_order) (product_le pf) arranged
             \<and> r_items r = take (nat limit) (drop (nat skip) arranged))
       \<and> (Order_attr lib sort_by = None \<longrightarrow>
            (\<exists>r arranged.
               get_orders_crud lib db skip limit user_id status sort_by sort_order = Inr r
               \<and> mset arranged = mset (filter (sql_and (order_filters user_id status)) (orders db))
               \<and> in_direction (requested_direction sort_order) (order_le OS_id) arranged
               \<and> r_items r = take (nat limit) (drop (nat skip) arranged)))
       \<and> (\<exists>r arranged.
             get_orders_crud lib db skip limit user_id status
               (OrderSortFields_value ofield) sort_order = Inr r
             \<and> mset arranged = mset (filter (sql_and (order_filters user_id status)) (orders db))
             \<and> in_direction (requested_direction sort_order) (order_le ofield) arranged
             \<and> r_items r = take (nat limit) (drop (nat skip) arranged))"
proof -
  note page = sorted_page_Inr[OF assms]
  have p: "\<exists>r arranged.
      sorted_page order_products (Column (ProductSortFields_column f)) sort_order skip limit rows n
        = Inr r
      \<and> mset arranged = mset rows
      \<and> in_direction (requested_direction sort_order) (product_le f) arranged
      \<and> r_items r = take (nat limit) (drop (nat skip) arranged)" for f rows n
    apply (simp add: page)
    apply (rule exI[of _ "order_products (ProductSortFields_column f)
          (requested_direction sort_order) rows"])
    apply (simp add: mset_order_products order_products_in_direction)
    done
  have q: "\<exists>r arranged.
      sorted_page order_orders (Column (OrderSortFields_column f)) sort_order skip limit rows n
        = Inr r
      \<and> mset arranged = mset rows
      \<and> in_direction (requested_direction sort_order) (order_le f) arranged
      \<and> r_items r = take (nat limit) (drop (nat skip) arranged)" for f rows n
    apply (simp add: page)
    apply (rule exI[of _ "order_orders (OrderSortFields_column f)
          (requested_direction sort_order) rows"])
    apply (simp add: mset_order_orders order_orders_in_direction)
    done
  let ?P = "filter (sql_and (product_filters search category brand min_price max_price))
              (products db)"
  let ?O = "filter (sql_and (order_filters user_id status)) (orders db)"
  show ?thesis
  proof (intro conjI impI)
    show "\<exists>r arranged.
        get_products_crud lib db skip limit search category brand min_price max_price
          sort_by sort_order = Inr r
        \<and> mset arranged =
            mset (filter (sql_and (product_filters search category brand min_price max_price))
                    (products db))
        \<and> in_direction (requested_direction sort_order) (product_le PS_id) arranged
        \<and> r_items r = take (nat limit) (drop (nat skip) arranged)"
      if "Product_attr lib sort_by = None"
      using p[of PS_id ?P "int (length ?P)"] by (simp add: get_products_crud_eq getattr_def that)
    show "\<exists>r arranged.
        get_products_crud lib db skip limit search category brand min_price max_price
          (ProductSortFields_value pf) sort_order = Inr r
        \<and> mset arranged =
            mset (filter (sql_and (product_filters search category brand min_price max_price))
                    (products db))
        \<and> in_direction (requested_direction sort_order) (product_le pf) arranged
        \<and> r_items r = take (nat limit) (drop (nat skip) arranged)"
      using p[of pf ?P "int (length ?P)"] by (simp add: get_products_crud_eq Product_sort_field)
    show "\<exists>r arranged.
        get_orders_crud lib db skip limit user_id status sort_by sort_order = Inr r
        \<and> mset arranged = mset (filter (sql_and (order_filters user_id status)) (orders db))
        \<and> in_direction (requested_direction sort_order) (order_le OS_id) arranged
        \<and> r_items r = take (nat limit) (drop (nat skip) arranged)"
      if "Order_attr lib sort_by = None"
      using q[of OS_id ?O "int (length ?O)"] by (simp add: get_orders_crud_eq getattr_def that)
    show "\<exists>r arranged.
        get_orders_crud lib db skip limit user_id status
          (OrderSortFields_value ofield) sort_order = Inr r
        \<and> mset arranged = mset (filter (sql_and (order_filters user_id status)) (orders db))
        \<and> in_direction (requested_direction sort_order) (order_le ofield) arranged
        \<and> r_items r = take (nat limit) (drop (nat skip) arranged)"
      using q[of ofield ?O "int (length ?O)"] by (simp add: get_orders_crud_eq Order_sort_field)
  qed
qed

theorem sort_field_and_direction_witness:
  "Product_attr example_library ''bogus'' = None
   \<and> Order_attr example_library ''bogus'' = None
   \<and> map_sum id (map p_id \<circ> r_items)
       (get_products_crud example_library example_unordered_database 0 2 None None None None None
          ''bogus'' ''DESC'') = Inr [3, 2]
   \<and> map_sum id (map p_id \<circ> r_items)
       (get_products_crud example_library example_unordered_database 0 2 None None None None None
          ''price'' ''DESC'') = Inr [1, 3]
   \<and> map_sum id (map p_id \<circ> r_items)
       (get_products_crud example_library example_unordered_database 0 2 None None None None None
          ''price'' ''asc'') = Inr [2, 3]
   \<and> map_sum id (map o_id \<circ> r_items)
       (get_orders_crud example_library example_unordered_database 0 2 None None ''bogus'' ''DESC'')
       = Inr [3, 2]
   \<and> map_sum id (map o_id \<circ> r_items)
       (get_orders_crud example_library example_unordered_database 0 2 None None ''user_id'' ''DESC'')
       = Inr [2, 1]"
proof -
  have c: "Product_attr example_library ''bogus'' = None"
    "Order_attr example_library ''bogus'' = None"
    by (simp_all add: Product_attr_def Order_attr_def class_attr_def Product_columns_def
          Order_columns_def example_library_def)
  have d: "requested_direction ''DESC'' = Desc" "requested_direction ''asc'' = Asc"
    by (simp_all add: requested_direction_def) code_simp+
  have f: "filter (sql_and (product_filters None None None None None)) prows = prows"
    "filter (sql_and (order_filters None None)) orows = orows" for prows orows
    by (simp_all add: product_filters_def order_filters_def sql_and_def)
  have b: "(0::int) \<le> 0" "(0::int) \<le> max_bigint" "(0::int) < 2" "(2::int) \<le> max_bigint"
    by (simp_all add: max_bigint_def)
  have e: "map p_id (take 2 (order_by p_id Desc (products example_unordered_database))) = [3, 2]"
    "map p_id (take 2 (order_by p_price Desc (products example_unordered_database))) = [1, 3]"
    "map p_id (take 2 (order_by p_price Asc (products example_unordered_database))) = [2, 3]"
    "map o_id (take 2 (order_by o_id Desc (orders example_unordered_database))) = [3, 2]"
    "map o_id (take 2 (order_by o_user_id Desc (orders example_unordered_database))) = [2, 1]"
    by (simp_all add: order_by_def example_unordered_database_def example_product_def
          example_order_def)
  have g: "getattr (Product_attr example_library) ''bogus'' (Column PId) = Column PId"
    "getattr (Product_attr example_library) ''price'' (Column PId) = Column PPrice"
    "getattr (Order_attr example_library) ''bogus'' (Column OId) = Column OId"
    "getattr (Order_attr example_library) ''user_id'' (Column OId) = Column OUserId"
    using Product_sort_field[of example_library PS_price]
      Order_sort_field[of example_library OS_user_id]
    by (simp_all add: getattr_def c)
  have v: "get_products_crud example_library example_unordered_database 0 2 None None None None
             None ''bogus'' ''DESC'' = Inr r \<Longrightarrow> map p_id (r_items r) = [3, 2]"
    "get_products_crud example_library example_unordered_database 0 2 None None None None
             None ''price'' ''DESC'' = Inr r \<Longrightarrow> map p_id (r_items r) = [1, 3]"
    "get_products_crud example_library example_unordered_database 0 2 None None None None
             None ''price'' ''asc'' = Inr r \<Longrightarrow> map p_id (r_items r) = [2, 3]" for r
    using e(1-3)
    by (auto simp: get_products_crud_eq g sorted_page_Inr[OF b] d f)
  have w: "get_orders_crud example_library example_unordered_database 0 2 None None
             ''bogus'' ''DESC'' = Inr r \<Longrightarrow> map o_id (r_items r) = [3, 2]"
    "get_orders_crud example_library example_unordered_database 0 2 None None
             ''user_id'' ''DESC'' = Inr r \<Longrightarrow> map o_id (r_items r) = [2, 1]" for r
    using e(4-5)
    by (auto simp: get_orders_crud_eq g sorted_page_Inr[OF b] d f)
  note T = sort_field_and_direction[OF b, where lib = example_library
      and db = example_unordered_database and sort_by = "''bogus''"
      and pf = PS_price and ofield = OS_user_id and search = None and category = None
      and brand = None and min_price = None and max_price = None and user_id = None
      and status = None]
  from T[where sort_order = "''DESC''"] c obtain r1 r2 r3 r4 where r:
    "get_products_crud example_library example_unordered_database 0 2 None None None None None
       ''bogus'' ''DESC'' = Inr r1"
    "get_products_crud example_library example_unordered_database 0 2 None None None None None
       ''price'' ''DESC'' = Inr r2"
    "get_orders_crud example_library example_unordered_database 0 2 None None ''bogus'' ''DESC''
       = Inr r3"
    "get_orders_crud example_library example_unordered_database 0 2 None None ''user_id'' ''DESC''
       = Inr r4"
    by auto
  from T[where sort_order = "''asc''"] obtain r5 where r5:
    "get_products_crud example_library example_unordered_database 0 2 None None None None None
       ''price'' ''asc'' = Inr r5"
    by auto
  show ?thesis
    using v(1)[OF r(1)] v(2)[OF r(2)] v(3)[OF r5] w(1)[OF r(3)] w(2)[OF r(4)]
    by (simp add: c r r5)
qed

section \<open>The list endpoints\<close>

lemma SortOrder_value_ok: "SortOrder_value so = ''asc'' \<or> SortOrder_value so = ''desc''"
  by (cases so) simp_all

lemma ceiling_bounds:
  fixes n s :: int
  assumes "0 < s"
  shows "(\<lceil>rat_of_int n / rat_of_int s\<rceil> - 1) * s < n \<and> n \<le> \<lceil>rat_of_int n / rat_of_int s\<rceil> * s"
proof -
  let ?c = "\<lceil>rat_of_int n / rat_of_int s\<rceil>"
  have s: "(0::rat) < rat_of_int s" using assms by simp
  have "rat_of_int n / rat_of_int s \<le> rat_of_int ?c" by (rule le_of_int_ceiling)
  then have "rat_of_int n \<le> rat_of_int ?c * rat_of_int s"
    using pos_divide_le_eq[OF s, of "rat_of_int n" "rat_of_int ?c"] by blast
  then have "rat_of_int n \<le> rat_of_int (?c * s)" by simp
  then have u: "n \<le> ?c * s" by (simp only: of_int_le_iff)
  have "rat_of_int ?c - 1 < rat_of_int n / rat_of_int s" by linarith
  then have "(rat_of_int ?c - 1) * rat_of_int s < rat_of_int n"
    using pos_less_divide_eq[OF s, of "rat_of_int ?c - 1" "rat_of_int n"] by blast
  then have "rat_of_int ((?c - 1) * s) < rat_of_int n" by simp
  then have "(?c - 1) * s < n" by (simp only: of_int_less_iff)
  with u show ?thesis by simp
qed

lemma cache_get_empty: "cache_get lib \<lparr>available = a, entries = []\<rparr> now k = JNull"
  by (simp add: cache_get_def redis_get_def)

lemma page_bounds:
  fixes pg sz :: int
  assumes "1 \<le> pg" and "1 \<le> sz" and "sz \<le> 1000" and "(pg - 1) * sz \<le> max_bigint"
  shows "0 \<le> (pg - 1) * sz" and "(pg - 1) * sz \<le> max_bigint" and "0 < sz"
    and "sz \<le> max_bigint" and "(pg - 1) * sz div sz + 1 = pg"
  using assms by (simp_all add: max_bigint_def)

lemma get_products_metadata:
  assumes "1 \<le> pq_page params" and "1 \<le> pq_size params" and "pq_size params \<le> 1000"
    and "(pq_page params - 1) * pq_size params \<le> max_bigint"
    and "\<not> truthy (cache_get lib cache now (products_cache_key lib params))"
  shows "\<exists>response cache' n pgs.
           get_products lib cache now db params = Inr (response, cache')
         \<and> field ''total'' response = Some (JInt n)
         \<and> field ''pages'' response = Some (JInt pgs)
         \<and> pgs = \<lceil>rat_of_int n / rat_of_int (pq_size params)\<rceil>
         \<and> (pgs - 1) * pq_size params < n \<and> n \<le> pgs * pq_size params
         \<and> field ''page'' response = Some (JInt (pq_page params))
         \<and> field ''size'' response = Some (JInt (pq_size params))"
proof -
  note b = page_bounds[OF assms(1-4)]
  show ?thesis
    using assms(1-3,5) ceiling_bounds[OF b(3)] b(5)
    by (simp add: get_products_def SortOrder_value_ok Let_def get_products_crud_eq
          Product_sort_field sorted_page_Inr[OF b(1-4)] response_data_def)
qed

lemma get_users_metadata:
  assumes "1 \<le> uq_page params" and "1 \<le> uq_size params" and "uq_size params \<le> 1000"
    and "(uq_page params - 1) * uq_size params \<le> max_bigint"
    and "\<not> truthy (cache_get lib cache now (users_cache_key lib params))"
  shows "\<exists>response cache' n pgs.
           get_users lib cache now db params = Inr (response, cache')
         \<and> field ''total'' response = Some (JInt n)
         \<and> field ''pages'' response = Some (JInt pgs)
         \<and> pgs = \<lceil>rat_of_int n / rat_of_int (uq_size params)\<rceil>
         \<and> (pgs - 1) * uq_size params < n \<and> n \<le> pgs * uq_size params
         \<and> field ''page'' response = Some (JInt (uq_page params))
         \<and> field ''size'' response = Some (JInt (uq_size params))"
proof -
  note b = page_bounds[OF assms(1-4)]
  obtain c where c: "getattr (User_attr lib) (UserSortFields_value (uq_sort_by params))
                       (Column UId) = Column c"
    using User_sort_field by blast
  show ?thesis
    using assms(1-3,5) ceiling_bounds[OF b(3)] b(5)
    by (simp add: get_users_def SortOrder_value_ok Let_def get_users_crud_eq c
          sorted_page_Inr[OF b(1-4)] response_data_def)
qed

lemma get_orders_metadata:
  assumes "1 \<le> oq_page params" and "1 \<le> oq_size params" and "oq_size params \<le> 1000"
    and "(oq_page params - 1) * oq_size params \<le> max_bigint"
    and "ge_opt 1 (oq_user_id params)"
    and "\<not> truthy (cache_get lib cache now (orders_cache_key lib params))"
  shows "\<exists>response cache' n pgs.
           get_orders lib cache now db params = Inr (response, cache')
         \<and> field ''total'' response = Some (JInt n)
         \<and> field ''pages'' response = Some (JInt pgs)
         \<and> pgs = \<lceil>rat_of_int n / rat_of_int (oq_size params)\<rceil>
         \<and> (pgs - 1) * oq_size params < n \<and> n \<le> pgs * oq_size params
         \<and> field ''page'' response = Some (JInt (oq_page params))
         \<and> field ''size'' response = Some (JInt (oq_size params))"
proof -
  note b = page_bounds[OF assms(1-4)]
  have uid: "\<not> (oq_user_id params \<noteq> None \<and> the (oq_user_id params) < 1)"
    using assms(5) by (cases "oq_user_id params") (simp_all add: ge_opt_def)
  show ?thesis
    using assms(1-3,6) uid ceiling_bounds[OF b(3)] b(5)
    by (simp add: get_orders_def SortOrder_value_ok Let_def get_orders_crud_eq Order_sort_field
          sorted_page_Inr[OF b(1-4)] response_data_def)
qed

text \<open>
  C2: the page of a list response is the page of the request. The product endpoint breaks
  it on a cache hit. The text that is hashed into the cache key joins \<^verbatim>\<open>key=value\<close> pairs
  with \<^verbatim>\<open>&\<close> and escapes neither character in a value, so the request for page 1 of the
  brand \<^verbatim>\<open>b&page=7&search=s\<close> and the request for page 7 of the brand \<^verbatim>\<open>b\<close> with the search
  term \<^verbatim>\<open>s&page=1\<close>, both of which the parameter schema accepts, have the same key, whatever
  the hash. Once the second has been answered and its response stored, the first is
  answered from the cache, within the 300 seconds that the entry lives, with that response,
  whose page is 7.
\<close>

theorem cache_hit_returns_another_page:
  "ProductQueryParams_valid example_request_first_page
   \<and> ProductQueryParams_valid example_request_seventh_page
   \<and> pq_page example_request_first_page = 1
   \<and> (\<forall>lib. products_cache_key lib example_request_first_page
              = products_cache_key lib example_request_seventh_page)
   \<and> get_products example_library \<lparr>available = True, entries = []\<rparr> 0 example_database
        example_request_seventh_page
      = Inr (JDict [(''items'', JList []), (''total'', JInt 0), (''page'', JInt 7),
                    (''size'', JInt 50), (''pages'', JInt 0)],
             \<lparr>available = True,
              entries = [(''products?brand=b&page=7&search=s&page=1&size=50&sort_by=id&sort_order=asc'',
                          ''{items: [], total: 0, page: 7, size: 50, pages: 0}'', 300)]\<rparr>)
   \<and> get_products example_library
        \<lparr>available = True,
         entries = [(''products?brand=b&page=7&search=s&page=1&size=50&sort_by=id&sort_order=asc'',
                     ''{items: [], total: 0, page: 7, size: 50, pages: 0}'', 300)]\<rparr>
        1 example_database example_request_first_page
      = Inr (JDict [(''items'', JList []), (''total'', JInt 0), (''page'', JInt 7),
                    (''size'', JInt 50), (''pages'', JInt 0)],
             \<lparr>available = True,
              entries = [(''products?brand=b&page=7&search=s&page=1&size=50&sort_by=id&sort_order=asc'',
                          ''{items: [], total: 0, page: 7, size: 50, pages: 0}'', 300)]\<rparr>)"
proof -
  let ?k = "''products?brand=b&page=7&search=s&page=1&size=50&sort_by=id&sort_order=asc''"
  let ?r = "JDict [(''items'', JList []), (''total'', JInt 0), (''page'', JInt 7),
                   (''size'', JInt 50), (''pages'', JInt 0)]"
  let ?s = "''{items: [], total: 0, page: 7, size: 50, pages: 0}''"
  have n: "int_str 1 = ''1''" "int_str 7 = ''7''" "int_str 50 = ''50''"
    by code_simp+
  have s1: "cache_string lib ''products''
       [(''page'', Some (SInt 1)), (''size'', Some (SInt 50)), (''search'', None),
        (''category'', None), (''brand'', Some (SStr ''b&page=7&search=s'')),
        (''min_price'', None), (''max_price'', None), (''sort_by'', Some (SStr ''id'')),
        (''sort_order'', Some (SStr ''asc''))] = ?k" for lib
    by (simp add: cache_string_def List.map_filter_simps n)
  have s7: "cache_string lib ''products''
       [(''page'', Some (SInt 7)), (''size'', Some (SInt 50)), (''search'', Some (SStr ''s&page=1'')),
        (''category'', None), (''brand'', Some (SStr ''b'')),
        (''min_price'', None), (''max_price'', None), (''sort_by'', Some (SStr ''id'')),
        (''sort_order'', Some (SStr ''asc''))] = ?k" for lib
    by (simp add: cache_string_def List.map_filter_simps n)
  have k1: "products_cache_key lib example_request_first_page = md5_hexdigest lib ?k" for lib
    by (simp add: products_cache_key_def generate_cache_key_def example_request_first_page_def s1)
  have k7: "products_cache_key lib example_request_seventh_page = md5_hexdigest lib ?k" for lib
    by (simp add: products_cache_key_def generate_cache_key_def example_request_seventh_page_def s7)
  have m: "md5_hexdigest example_library ?k = ?k"
    by (simp add: example_library_def)
  have valid: "ProductQueryParams_valid example_request_first_page"
    "ProductQueryParams_valid example_request_seventh_page"
    by (simp_all add: ProductQueryParams_valid_def example_request_first_page_def
          example_request_seventh_page_def max_length_def float_ge_opt_def)
  have dumps: "json_dumps example_library ?r = ?s"
    by (simp add: example_library_def example_codec_def)
  have loads: "json_loads example_library ?s = Some ?r"
    by (simp add: example_library_def example_codec_def)
  have none: "filter (sql_and (product_filters (Some ''s&page=1'') None (Some ''b'') None None))
                (products example_database) = []"
    by (simp add: product_filters_def sql_and_def example_database_def
          example_product_def)
  have b: "(0::int) \<le> 300" "(300::int) \<le> max_bigint" "(0::int) < 50" "(50::int) \<le> max_bigint"
    by (simp_all add: max_bigint_def)
  have crud: "get_products_crud example_library example_database 300 50 (Some ''s&page=1'') None
                (Some ''b'') None None ''id'' ''asc''
              = Inr \<lparr>r_items = [], r_total = 0, r_page = 7, r_size = 50, r_pages = 0\<rparr>"
    using Product_sort_field[of example_library PS_id]
    by (simp add: get_products_crud_eq none sorted_page_Inr[OF b] length_order_by)
  have stored: "cache_set example_library \<lparr>available = True, entries = []\<rparr> 0 ?k ?r (Some 300)
                = (True, \<lparr>available = True, entries = [(?k, ?s, 300)]\<rparr>)"
    by (simp add: cache_set_def redis_setex_def dumps max_bigint_def)
  have hit: "cache_get example_library \<lparr>available = True, entries = [(?k, ?s, 300)]\<rparr> now ?k = ?r"
    if "now < 300" for now
    using that by (simp add: cache_get_def redis_get_def loads)
  have seventh: "get_products example_library \<lparr>available = True, entries = []\<rparr> 0
                   example_database example_request_seventh_page
                 = Inr (?r, \<lparr>available = True, entries = [(?k, ?s, 300)]\<rparr>)"
    unfolding get_products_def k7 m cache_get_empty
    by (simp add: example_request_seventh_page_def crud response_data_def stored)
  have first: "get_products example_library \<lparr>available = True, entries = [(?k, ?s, 300)]\<rparr> 1
                 example_database example_request_first_page
               = Inr (?r, \<lparr>available = True, entries = [(?k, ?s, 300)]\<rparr>)"
    unfolding get_products_def k1 m
    by (simp add: example_request_first_page_def hit)
  have pg: "pq_page example_request_first_page = 1"
    by (simp add: example_request_first_page_def)
  show ?thesis
    by (simp only: valid pg k1 k7 seventh first simp_thms)
qed

lemma get_products_rejects_size:
  assumes "pq_size params < 1 \<or> 1000 < pq_size params"
  shows "\<exists>detail. \<forall>cache now db. get_products lib cache now db params = Inl (HTTPException 400 detail)"
proof (cases "pq_page params < 1")
  case True
  then show ?thesis
    using SortOrder_value_ok[of "pq_sort_order params"] by (auto simp: get_products_def)
next
  case False
  then show ?thesis
    using assms SortOrder_value_ok[of "pq_sort_order params"] by (auto simp: get_products_def)
qed

lemma get_users_rejects_size:
  assumes "uq_size params < 1 \<or> 1000 < uq_size params"
  shows "\<exists>detail. \<forall>cache now db. get_users lib cache now db params = Inl (HTTPException 400 detail)"
proof (cases "uq_page params < 1")
  case True
  then show ?thesis
    using SortOrder_value_ok[of "uq_sort_order params"] by (auto simp: get_users_def)
next
  case False
  then show ?thesis
    using assms SortOrder_value_ok[of "uq_sort_order params"] by (auto simp: get_users_def)
qed

lemma get_orders_rejects_size:
  assumes "oq_size params < 1 \<or> 1000 < oq_size params"
  shows "\<exists>detail. \<forall>cache now db. get_orders lib cache now db params = Inl (HTTPException 400 detail)"
proof (cases "oq_page params < 1")
  case True
  then show ?thesis
    using SortOrder_value_ok[of "oq_sort_order params"] by (auto simp: get_orders_def)
next
  case False
  then show ?thesis
    using assms SortOrder_value_ok[of "oq_sort_order params"] by (auto simp: get_orders_def)
qed

lemma size_detail_differs:
  "''Size must be between 1 and 1000'' \<noteq> sort_order_detail"
  "''Size must be between 1 and 1000'' \<noteq> ''Page must be greater than 0''"
  "''Size must be between 1 and 1000'' \<noteq> ''user_id must be greater than 0''"
  by (simp_all add: sort_order_detail_def)

lemma get_products_size_in_range:
  assumes "1 \<le> pq_size params" and "pq_size params \<le> 1000"
  shows "get_products lib cache now db params
           \<noteq> Inl (HTTPException 400 ''Size must be between 1 and 1000'')"
  using assms size_detail_differs
  by (auto simp: get_products_def Let_def split: sum.splits)

lemma get_users_size_in_range:
  assumes "1 \<le> uq_size params" and "uq_size params \<le> 1000"
  shows "get_users lib cache now db params
           \<noteq> Inl (HTTPException 400 ''Size must be between 1 and 1000'')"
  using assms size_detail_differs
  by (auto simp: get_users_def Let_def split: sum.splits)

lemma get_orders_size_in_range:
  assumes "1 \<le> oq_size params" and "oq_size params \<le> 1000"
  shows "get_orders lib cache now db params
           \<noteq> Inl (HTTPException 400 ''Size must be between 1 and 1000'')"
  using assms size_detail_differs
  by (auto simp: get_orders_def Let_def split: sum.splits)

lemma get_products_accepts:
  assumes "1 \<le> pq_page params" and "1 \<le> pq_size params" and "pq_size params \<le> 1000"
    and "(pq_page params - 1) * pq_size params \<le> max_bigint"
  shows "\<exists>result. get_products lib cache now db params = Inr result"
proof (cases "truthy (cache_get lib cache now (products_cache_key lib params))")
  case True
  then show ?thesis
    using assms SortOrder_value_ok[of "pq_sort_order params"]
    by (simp add: get_products_def Let_def)
next
  case False
  with get_products_metadata[OF assms] show ?thesis by blast
qed

lemma get_users_accepts:
  assumes "1 \<le> uq_page params" and "1 \<le> uq_size params" and "uq_size params \<le> 1000"
    and "(uq_page params - 1) * uq_size params \<le> max_bigint"
  shows "\<exists>result. get_users lib cache now db params = Inr result"
proof (cases "truthy (cache_get lib cache now (users_cache_key lib params))")
  case True
  then show ?thesis
    using assms SortOrder_value_ok[of "uq_sort_order params"]
    by (simp add: get_users_def Let_def)
next
  case False
  with get_users_metadata[OF assms] show ?thesis by blast
qed

lemma get_orders_accepts:
  assumes "1 \<le> oq_page params" and "1 \<le> oq_size params" and "oq_size params \<le> 1000"
    and "(oq_page params - 1) * oq_size params \<le> max_bigint"
    and "ge_opt 1 (oq_user_id params)"
  shows "\<exists>result. get_orders lib cache now db params = Inr result"
proof (cases "truthy (cache_get lib cache now (orders_cache_key lib params))")
  case True
  have uid: "\<not> (oq_user_id params \<noteq> None \<and> the (oq_user_id params) < 1)"
    using assms(5) by (cases "oq_user_id params") (simp_all add: ge_opt_def)
  from True show ?thesis
    using assms(1-3) uid SortOrder_value_ok[of "oq_sort_order params"]
    by (simp add: get_orders_def Let_def)
next
  case False
  with get_orders_metadata[OF assms] show ?thesis by blast
qed

text \<open>
  C10. Each of the three list endpoints refuses a request whose size is below 1 or above
  1000 with an \<^verbatim>\<open>HTTPException\<close> of status 400 that depends on the parameters alone: the
  cache and the database play no part in it. The parameter schemas refuse such a size as
  well. No size from 1 to 1000 is refused for being out of range, 1000 being the largest
  such size; and a request of such a size is answered when its page is at least 1, its
  offset \<^verbatim>\<open>(page - 1) * size\<close> is within the signed 64-bit integers and, for orders, its
  user id is absent or at least 1.
\<close>

theorem list_endpoints_size_bound:
  "((pq_size pparams < 1 \<or> 1000 < pq_size pparams) \<longrightarrow>
       (\<exists>detail. \<forall>cache now db.
           get_products lib cache now db pparams = Inl (HTTPException 400 detail))
       \<and> \<not> ProductQueryParams_valid pparams)
   \<and> ((uq_size uparams < 1 \<or> 1000 < uq_size uparams) \<longrightarrow>
       (\<exists>detail. \<forall>cache now db.
           get_users lib cache now db uparams = Inl (HTTPException 400 detail))
       \<and> \<not> UserQueryParams_valid uparams)
   \<and> ((oq_size oparams < 1 \<or> 1000 < oq_size oparams) \<longrightarrow>
       (\<exists>detail. \<forall>cache now db.
           get_orders lib cache now db oparams = Inl (HTTPException 400 detail))
       \<and> \<not> OrderQueryParams_valid oparams)
   \<and> (1 \<le> pq_size pparams \<and> pq_size pparams \<le> 1000 \<longrightarrow>
       get_products lib cache now db pparams
         \<noteq> Inl (HTTPException 400 ''Size must be between 1 and 1000''))
   \<and> (1 \<le> uq_size uparams \<and> uq_size uparams \<le> 1000 \<longrightarrow>
       get_users lib cache now db uparams
         \<noteq> Inl (HTTPException 400 ''Size must be between 1 and 1000''))
   \<and> (1 \<le> oq_size oparams \<and> oq_size oparams \<le> 1000 \<longrightarrow>
       get_orders lib cache now db oparams
         \<noteq> Inl (HTTPException 400 ''Size must be between 1 and 1000''))
   \<and> (1 \<le> pq_page pparams \<and> 1 \<le> pq_size pparams \<and> pq_size pparams \<le> 1000
       \<and> (pq_page pparams - 1) * pq_size pparams \<le> max_bigint \<longrightarrow>
       (\<exists>result. get_products lib cache now db pparams = Inr result))
   \<and> (1 \<le> uq_page uparams \<and> 1 \<le> uq_size uparams \<and> uq_size uparams \<le> 1000
       \<and> (uq_page uparams - 1) * uq_size uparams \<le> max_bigint \<longrightarrow>
       (\<exists>result. get_users lib cache now db uparams = Inr result))
   \<and> (1 \<le> oq_page oparams \<and> 1 \<le> oq_size oparams \<and> oq_size oparams \<le> 1000
       \<and> (oq_page oparams - 1) * oq_size oparams \<le> max_bigint
       \<and> ge_opt 1 (oq_user_id oparams) \<longrightarrow>
       (\<exists>result. get_orders lib cache now db oparams = Inr result))"
proof (intro conjI impI)
  show "\<not> ProductQueryParams_valid pparams" if "pq_size pparams < 1 \<or> 1000 < pq_size pparams"
    using that by (auto simp: ProductQueryParams_valid_def)
  show "\<not> UserQueryParams_valid uparams" if "uq_size uparams < 1 \<or> 1000 < uq_size uparams"
    using that by (auto simp: UserQueryParams_valid_def)
  show "\<not> OrderQueryParams_valid oparams" if "oq_size oparams < 1 \<or> 1000 < oq_size oparams"
    using that by (auto simp: OrderQueryParams_valid_def)
  show "\<exists>detail. \<forall>cache now db.
          get_products lib cache now db pparams = Inl (HTTPException 400 detail)"
    if "pq_size pparams < 1 \<or> 1000 < pq_size pparams"
    using that by (rule get_products_rejects_size)
  show "\<exists>detail. \<forall>cache now db.
          get_users lib cache now db uparams = Inl (HTTPException 400 detail)"
    if "uq_size uparams < 1 \<or> 1000 < uq_size uparams"
    using that by (rule get_users_rejects_size)
  show "\<exists>detail. \<forall>cache now db.
          get_orders lib cache now db oparams = Inl (HTTPException 400 detail)"
    if "oq_size oparams < 1 \<or> 1000 < oq_size oparams"
    using that by (rule get_orders_rejects_size)
  show "get_products lib cache now db pparams
          \<noteq> Inl (HTTPException 400 ''Size must be between 1 and 1000'')"
    if "1 \<le> pq_size pparams \<and> pq_size pparams \<le> 1000"
    using that by (intro get_products_size_in_range) simp_all
  show "get_users lib cache now db uparams
          \<noteq> Inl (HTTPException 400 ''Size must be between 1 and 1000'')"
    if "1 \<le> uq_size uparams \<and> uq_size uparams \<le> 1000"
    using that by (intro get_users_size_in_range) simp_all
  show "get_orders lib cache now db oparams
          \<noteq> Inl (HTTPException 400 ''Size must be between 1 and 1000'')"
    if "1 \<le> oq_size oparams \<and> oq_size oparams \<le> 1000"
    using that by (intro get_orders_size_in_range) simp_all
  show "\<exists>result. get_products lib cache now db pparams = Inr result"
    if "1 \<le> pq_page pparams \<and> 1 \<le> pq_size pparams \<and> pq_size pparams \<le> 1000
        \<and> (pq_page pparams - 1) * pq_size pparams \<le> max_bigint"
    using that by (intro get_products_accepts) simp_all
  show "\<exists>result. get_users lib cache now db uparams = Inr result"
    if "1 \<le> uq_page uparams \<and> 1 \<le> uq_size uparams \<and> uq_size uparams \<le> 1000
        \<and> (uq_page uparams - 1) * uq_size uparams \<le> max_bigint"
    using that by (intro get_users_accepts) simp_all
  show "\<exists>result. get_orders lib cache now db oparams = Inr result"
    if "1 \<le> oq_page oparams \<and> 1 \<le> oq_size oparams \<and> oq_size oparams \<le> 1000
        \<and> (oq_page oparams - 1) * oq_size oparams \<le> max_bigint
        \<and> ge_opt 1 (oq_user_id oparams)"
    using that by (intro get_orders_accepts) simp_all
qed

theorem list_endpoints_size_bound_witness:
  "get_products example_library \<lparr>available = True, entries = []\<rparr> 0 example_database
      \<lparr>pq_page = 1, pq_size = 1001, pq_search = None, pq_category = None, pq_brand = None,
       pq_min_price = None, pq_max_price = None, pq_sort_by = PS_id, pq_sort_order = SO_asc\<rparr>
     = Inl (HTTPException 400 ''Size must be between 1 and 1000'')
   \<and> get_users example_library \<lparr>available = True, entries = []\<rparr> 0 example_database
      \<lparr>uq_page = 1, uq_size = 0, uq_search = None, uq_city = None, uq_country = None,
       uq_sort_by = US_id, uq_sort_order = SO_asc\<rparr>
     = Inl (HTTPException 400 ''Size must be between 1 and 1000'')
   \<and> get_orders example_library \<lparr>available = True, entries = []\<rparr> 0 example_database
      \<lparr>oq_page = 1, oq_size = 1001, oq_user_id = None, oq_status = None,
       oq_sort_by = OS_id, oq_sort_order = SO_desc\<rparr>
     = Inl (HTTPException 400 ''Size must be between 1 and 1000'')
   \<and> (\<exists>result. get_products example_library \<lparr>available = True, entries = []\<rparr> 0 example_database
      \<lparr>pq_page = 1, pq_size = 1000, pq_search = None, pq_category = None, pq_brand = None,
       pq_min_price = None, pq_max_price = None, pq_sort_by = PS_id, pq_sort_order = SO_asc\<rparr>
     = Inr result)
   \<and> (\<exists>result. get_users example_library \<lparr>available = True, entries = []\<rparr> 0 example_database
      \<lparr>uq_page = 1, uq_size = 1000, uq_search = None, uq_city = None, uq_country = None,
       uq_sort_by = US_id, uq_sort_order = SO_asc\<rparr>
     = Inr result)
   \<and> (\<exists>result. get_orders example_library \<lparr>available = True, entries = []\<rparr> 0 example_database
      \<lparr>oq_page = 1, oq_size = 1000, oq_user_id = None, oq_status = None,
       oq_sort_by = OS_id, oq_sort_order = SO_desc\<rparr>
     = Inr result)"
proof -
  let ?c = "\<lparr>available = True, entries = []\<rparr>"
  let ?p = "\<lparr>pq_page = 1, pq_size = 1000, pq_search = None, pq_category = None, pq_brand = None,
       pq_min_price = None, pq_max_price = None, pq_sort_by = PS_id, pq_sort_order = SO_asc\<rparr>"
  let ?u = "\<lparr>uq_page = 1, uq_size = 1000, uq_search = None, uq_city = None, uq_country = None,
       uq_sort_by = US_id, uq_sort_order = SO_asc\<rparr>"
  let ?o = "\<lparr>oq_page = 1, oq_size = 1000, oq_user_id = None, oq_status = None,
       oq_sort_by = OS_id, oq_sort_order = SO_desc\<rparr>"
  have rejected:
    "get_products example_library ?c 0 example_database (?p\<lparr>pq_size := 1001\<rparr>)
       = Inl (HTTPException 400 ''Size must be between 1 and 1000'')"
    "get_users example_library ?c 0 example_database (?u\<lparr>uq_size := 0\<rparr>)
       = Inl (HTTPException 400 ''Size must be between 1 and 1000'')"
    "get_orders example_library ?c 0 example_database (?o\<lparr>oq_size := 1001\<rparr>)
       = Inl (HTTPException 400 ''Size must be between 1 and 1000'')"
    by (simp_all add: get_products_def get_users_def get_orders_def)
  from list_endpoints_size_bound[where pparams = ?p and uparams = ?u and oparams = ?o
      and lib = example_library and cache = ?c and now = 0 and db = example_database]
  have accepted:
    "\<exists>result. get_products example_library ?c 0 example_database ?p = Inr result"
    "\<exists>result. get_users example_library ?c 0 example_database ?u = Inr result"
    "\<exists>result. get_orders example_library ?c 0 example_database ?o = Inr result"
    by (simp_all add: ge_opt_def max_bigint_def)
  from rejected accepted show ?thesis by simp
qed

end
